theory Spec2Isabelle
  imports Complex_Main "HOL-Library.Char_ord" "HOL-Library.List_Lexorder"
    "HOL-Library.Option_ord"
begin

section \<open>Eva Memory: the core engine of scripts/memory.py\<close>

text \<open>
  The development embeds the write pipeline, the write-ahead log, the offline queue,
  the graph layer and the entity extractor of \<^verbatim>\<open>scripts/memory.py\<close>.

  Conventions of the embedding.
  \<^item> A Python \<^verbatim>\<open>str\<close> is a \<open>string\<close>; a \<open>char\<close> stands for the code point
    of the same number, so the model covers text over the code points below 256.
  \<^item> A Python \<^verbatim>\<open>float\<close> is a \<open>real\<close>: rounding is not modelled.
  \<^item> The files and services the script talks to form the record \<open>world\<close>, passed through
    every operation and returned updated.
  \<^item> What the outside decides (configuration, the clock, fresh identifiers, the answers of
    the HTTP services and of the fulltext engine) is the record \<open>env\<close>. The answer of a
    service may change from one request to the next, so each answer is indexed by the
    number of requests made before it.
  \<^item> A Python exception that leaves a function is the left summand of its result.
\<close>

datatype py_error = TypeError | KeyError | ZeroDivisionError

subsection \<open>Strings as Python sees them\<close>

definition NL :: char where
  "NL = CHR 0x0A"

text \<open>\<^verbatim>\<open>str.isspace\<close> on the code points below 256.\<close>

definition py_isspace :: "char \<Rightarrow> bool" where
  "py_isspace c =
     (let n = (of_char c :: nat)
      in (9 \<le> n \<and> n \<le> 13) \<or> (28 \<le> n \<and> n \<le> 32) \<or> n = 133 \<or> n = 160)"

definition py_strip :: "string \<Rightarrow> string" where
  "py_strip s = rev (dropWhile py_isspace (rev (dropWhile py_isspace s)))"

text \<open>\<^verbatim>\<open>s.split("\n")\<close>: always at least one piece.\<close>

fun split_nl :: "string \<Rightarrow> string list" where
  "split_nl [] = [[]]"
| "split_nl (c # cs) =
     (if c = NL then [] # split_nl cs
      else (case split_nl cs of
              [] \<Rightarrow> [[c]]
            | l # ls \<Rightarrow> (c # l) # ls))"

text \<open>\<^verbatim>\<open>"\n".join(ls)\<close>.\<close>

fun join_nl :: "string list \<Rightarrow> string" where
  "join_nl [] = []"
| "join_nl [l] = l"
| "join_nl (l # ls) = l @ NL # join_nl ls"

subsection \<open>JSON values\<close>

text \<open>
  What \<^verbatim>\<open>json.loads\<close> returns and \<^verbatim>\<open>json.dumps\<close> prints. A float carries the text
  that Python prints for it.
\<close>

datatype json =
    JNull
  | JBool bool
  | JInt int
  | JFloat string
  | JStr string
  | JArr "json list"
  | JObj "(string \<times> json) list"

definition digit_char :: "nat \<Rightarrow> char" where
  "digit_char n = char_of (48 + n)"

fun str_nat :: "nat \<Rightarrow> string" where
  "str_nat n = (if n < 10 then [digit_char n] else str_nat (n div 10) @ [digit_char (n mod 10)])"

declare str_nat.simps [simp del]

definition str_int :: "int \<Rightarrow> string" where
  "str_int i = (if i < 0 then CHR ''-'' # str_nat (nat (- i)) else str_nat (nat i))"

definition hex_char :: "nat \<Rightarrow> char" where
  "hex_char n = (if n < 10 then char_of (48 + n) else char_of (87 + n))"

text \<open>
  The encoder of \<^verbatim>\<open>json.dumps\<close> with \<^verbatim>\<open>ensure_ascii\<close>: the quote and the backslash are
  escaped, and so is everything outside the range from the space to the tilde.
\<close>

definition json_escape_char :: "char \<Rightarrow> string" where
  "json_escape_char c =
     (let n = (of_char c :: nat)
      in if c = CHR 0x22 then [CHR 0x5C, CHR 0x22]
         else if c = CHR 0x5C then [CHR 0x5C, CHR 0x5C]
         else if c = CHR 0x0A then [CHR 0x5C, CHR ''n'']
         else if c = CHR 0x0D then [CHR 0x5C, CHR ''r'']
         else if c = CHR 0x09 then [CHR 0x5C, CHR ''t'']
         else if c = CHR 0x0C then [CHR 0x5C, CHR ''f'']
         else if c = CHR 0x08 then [CHR 0x5C, CHR ''b'']
         else if 32 \<le> n \<and> n \<le> 126 then [c]
         else [CHR 0x5C, CHR ''u'', CHR ''0'', CHR ''0'', hex_char (n div 16), hex_char (n mod 16)])"

definition json_quote :: "string \<Rightarrow> string" where
  "json_quote s = CHR 0x22 # concat (map json_escape_char s) @ [CHR 0x22]"

fun join_comma :: "string list \<Rightarrow> string" where
  "join_comma [] = []"
| "join_comma [l] = l"
| "join_comma (l # ls) = l @ '', '' @ join_comma ls"

fun json_dumps :: "json \<Rightarrow> string" where
  "json_dumps JNull = ''null''"
| "json_dumps (JBool b) = (if b then ''true'' else ''false'')"
| "json_dumps (JInt i) = str_int i"
| "json_dumps (JFloat r) = r"
| "json_dumps (JStr s) = json_quote s"
| "json_dumps (JArr xs) = ''['' @ join_comma (map json_dumps xs) @ '']''"
| "json_dumps (JObj kvs) =
     ''{'' @ join_comma (map (\<lambda>(k, v). json_quote k @ '': '' @ json_dumps v) kvs) @ ''}''"

text \<open>\<^verbatim>\<open>d[k]\<close> and \<^verbatim>\<open>d.get(k)\<close> on the pairs of an object.\<close>

definition dict_get :: "(string \<times> json) list \<Rightarrow> string \<Rightarrow> json option" where
  "dict_get kvs k = map_of kvs k"

subsection \<open>Entity extraction and classification\<close>

text \<open>
  \<^verbatim>\<open>str.lower\<close>, the class \<^verbatim>\<open>\w\<close> of the \<^verbatim>\<open>re\<close> module and the classes \<^verbatim>\<open>[a-z]\<close> and
  \<^verbatim>\<open>[A-Z]\<close>, on the code points below 256.
\<close>

definition py_lower_char :: "char \<Rightarrow> char" where
  "py_lower_char c =
     (let n = (of_char c :: nat)
      in if (65 \<le> n \<and> n \<le> 90) \<or> (192 \<le> n \<and> n \<le> 214) \<or> (216 \<le> n \<and> n \<le> 222)
         then char_of (n + 32) else c)"

definition py_lower :: "string \<Rightarrow> string" where
  "py_lower s = map py_lower_char s"

definition is_word_char :: "char \<Rightarrow> bool" where
  "is_word_char c =
     (let n = (of_char c :: nat)
      in (48 \<le> n \<and> n \<le> 57) \<or> (65 \<le> n \<and> n \<le> 90) \<or> n = 95 \<or> (97 \<le> n \<and> n \<le> 122)
         \<or> n = 170 \<or> n = 178 \<or> n = 179 \<or> n = 181 \<or> n = 185 \<or> n = 186
         \<or> (188 \<le> n \<and> n \<le> 190) \<or> (192 \<le> n \<and> n \<le> 214) \<or> (216 \<le> n \<and> n \<le> 246)
         \<or> (248 \<le> n \<and> n \<le> 255))"

definition is_az :: "char \<Rightarrow> bool" where
  "is_az c = (let n = (of_char c :: nat) in 97 \<le> n \<and> n \<le> 122)"

definition is_AZ :: "char \<Rightarrow> bool" where
  "is_AZ c = (let n = (of_char c :: nat) in 65 \<le> n \<and> n \<le> 90)"

text \<open>\<^verbatim>\<open>s.split()\<close>: the maximal runs without whitespace.\<close>

fun split_ws :: "string \<Rightarrow> string \<Rightarrow> string list" where
  "split_ws acc [] = (if acc = [] then [] else [acc])"
| "split_ws acc (c # cs) =
     (if py_isspace c then (if acc = [] then [] else [acc]) @ split_ws [] cs
      else split_ws (acc @ [c]) cs)"

definition py_split :: "string \<Rightarrow> string list" where
  "py_split s = split_ws [] s"

text \<open>\<^verbatim>\<open>val.rsplit(".", 1)[0]\<close> for a value that contains a dot.\<close>

definition rsplit_dot :: "string \<Rightarrow> string" where
  "rsplit_dot val = rev (tl (dropWhile (\<lambda>c. c \<noteq> CHR ''.'') (rev val)))"

definition STOP_WORDS :: "string list" where
  "STOP_WORDS =
     [
      ''the'', ''a'', ''an'', ''is'', ''are'', ''was'', ''were'', ''be'', ''been'',
      ''being'', ''have'', ''has'', ''had'', ''do'', ''does'', ''did'', ''will'',
      ''would'', ''could'', ''should'', ''may'', ''might'', ''must'', ''shall'', ''can'',
      ''need'', ''dare'', ''ought'', ''used'', ''to'', ''of'', ''in'', ''for'', ''on'',
      ''with'', ''at'', ''by'', ''from'', ''as'', ''into'', ''through'', ''during'',
      ''before'', ''after'', ''above'', ''below'', ''between'', ''under'', ''again'',
      ''further'', ''then'', ''once'', ''here'', ''there'', ''when'', ''where'', ''why'',
      ''how'', ''all'', ''each'', ''few'', ''more'', ''most'', ''other'', ''some'',
      ''such'', ''no'', ''nor'', ''not'', ''only'', ''own'', ''same'', ''so'', ''than'',
      ''too'', ''very'', ''just'', ''also'', ''now'', ''and'', ''but'', ''if'', ''or'',
      ''because'', ''until'', ''while'', ''this'', ''that'', ''these'', ''those'', ''it'',
      ''its'', ''i'', ''me'', ''my'', ''we'', ''our'', ''you'', ''your'', ''he'', ''him'',
      ''his'', ''she'', ''her'', ''they'', ''them'', ''their'', ''what'', ''which'',
      ''who'', ''whom'', ''get'', ''got'', ''about'', ''like'', ''want'', ''know'',
      ''think'', ''make'', ''take'', ''see'', ''come'', ''go'', ''use'', ''using'', ''used'']"

definition topic_fields :: "string list" where
  "topic_fields =
     [''topic'', ''about'', ''subject'', ''name'', ''title'', ''category'', ''area'',
      ''domain'', ''field'', ''concept'', ''item'', ''what'', ''learning'', ''studying'',
      ''project'', ''goal'', ''target'']"

definition list_fields :: "string list" where
  "list_fields = [''topics'', ''tags'', ''categories'', ''items'', ''subjects'', ''areas'']"

text \<open>
  \<^verbatim>\<open>re.findall(r"#(\w+)", text)\<close>. The second argument is the tag being read: \<open>None\<close>
  outside a tag, \<open>Some acc\<close> after the hash sign with the word characters read so far.
\<close>

fun hashtags_scan :: "string \<Rightarrow> string option \<Rightarrow> string list" where
  "hashtags_scan [] None = []"
| "hashtags_scan [] (Some acc) = (if acc = [] then [] else [acc])"
| "hashtags_scan (c # cs) None =
     (if c = CHR ''#'' then hashtags_scan cs (Some []) else hashtags_scan cs None)"
| "hashtags_scan (c # cs) (Some acc) =
     (if is_word_char c then hashtags_scan cs (Some (acc @ [c]))
      else (if acc = [] then [] else [acc])
           @ (if c = CHR ''#'' then hashtags_scan cs (Some []) else hashtags_scan cs None))"

definition find_hashtags :: "string \<Rightarrow> string list" where
  "find_hashtags text = hashtags_scan text None"

text \<open>
  \<^verbatim>\<open>re.findall(r'"([^"]{2,30})"', text)\<close>. After an opening quote the characters up to the
  next quote are read; they match when they are 2 to 30, and otherwise that next quote is
  tried as an opening quote.
\<close>

fun quoted_scan :: "string \<Rightarrow> string option \<Rightarrow> string list" where
  "quoted_scan [] st = []"
| "quoted_scan (c # cs) None =
     (if c = CHR 0x22 then quoted_scan cs (Some []) else quoted_scan cs None)"
| "quoted_scan (c # cs) (Some acc) =
     (if c = CHR 0x22
      then (if 2 \<le> length acc \<and> length acc \<le> 30 then acc # quoted_scan cs None
            else quoted_scan cs (Some []))
      else quoted_scan cs (Some (acc @ [c])))"

definition find_quoted :: "string \<Rightarrow> string list" where
  "find_quoted text = quoted_scan text None"

text \<open>
  The maximal runs of word characters and of other characters, in order; the flag says
  which. A \<^verbatim>\<open>\b\<close> of a pattern can only stand where two runs meet.
\<close>

fun tokens :: "string \<Rightarrow> (bool \<times> string) list" where
  "tokens [] = []"
| "tokens (c # cs) =
     (case tokens cs of
        [] \<Rightarrow> [(is_word_char c, [c])]
      | (b, t) # ts \<Rightarrow>
          (if b = is_word_char c then (b, c # t) # ts
           else (is_word_char c, [c]) # (b, t) # ts))"

definition az3 :: "string \<Rightarrow> bool" where
  "az3 t = (3 \<le> length t \<and> list_all is_az t)"

definition all_space :: "string \<Rightarrow> bool" where
  "all_space s = list_all py_isspace s"

definition is_cap :: "string \<Rightarrow> bool" where
  "is_cap t = (case t of [] \<Rightarrow> False | c # cs \<Rightarrow> is_AZ c \<and> cs \<noteq> [] \<and> list_all is_az cs)"

text \<open>\<^verbatim>\<open>re.findall(r"\b([a-z]{3,})\b", text)\<close>: the word runs of three or more letters a to z.\<close>

definition find_words :: "string \<Rightarrow> string list" where
  "find_words text = map snd (filter (\<lambda>(b, t). b \<and> az3 t) (tokens text))"

text \<open>
  \<^verbatim>\<open>re.findall(r"\b([a-z]{3,}\s+[a-z]{3,})\b", text)\<close>: two such runs with only whitespace
  between them; the search goes on after the second run.
\<close>

fun bigrams_scan :: "(bool \<times> string) list \<Rightarrow> string list" where
  "bigrams_scan ((b1, t1) # (b2, s) # (b3, t2) # rest) =
     (if b1 \<and> az3 t1 \<and> \<not> b2 \<and> all_space s \<and> b3 \<and> az3 t2
      then (t1 @ s @ t2) # bigrams_scan rest
      else bigrams_scan ((b2, s) # (b3, t2) # rest))"
| "bigrams_scan ts = []"

definition find_bigrams :: "string \<Rightarrow> string list" where
  "find_bigrams text = bigrams_scan (tokens text)"

text \<open>
  \<^verbatim>\<open>re.findall(r"\b([A-Z][a-z]+(?:\s+[A-Z][a-z]+){0,2})\b", raw)\<close>: a capitalised run,
  extended by up to two more that follow it after whitespace only.
\<close>

fun caps_scan :: "(bool \<times> string) list \<Rightarrow> string list" where
  "caps_scan [] = []"
| "caps_scan [(b, t)] = (if b \<and> is_cap t then [t] else [])"
| "caps_scan [(b, t), x] = (if b \<and> is_cap t then t # caps_scan [x] else caps_scan [x])"
| "caps_scan ((b, t) # (b1, s1) # (b2, t1) # rest) =
     (if b \<and> is_cap t
      then (if \<not> b1 \<and> all_space s1 \<and> b2 \<and> is_cap t1
            then (case rest of
                    (b3, s2) # (b4, t2) # rest2 \<Rightarrow>
                      (if \<not> b3 \<and> all_space s2 \<and> b4 \<and> is_cap t2
                       then (t @ s1 @ t1 @ s2 @ t2) # caps_scan rest2
                       else (t @ s1 @ t1) # caps_scan rest)
                  | _ \<Rightarrow> (t @ s1 @ t1) # caps_scan rest)
            else t # caps_scan ((b1, s1) # (b2, t1) # rest))
      else caps_scan ((b1, s1) # (b2, t1) # rest))"

definition find_caps :: "string \<Rightarrow> string list" where
  "find_caps raw = caps_scan (tokens raw)"

text \<open>
  The content handed to the extractor: a mapping, or anything else through its \<^verbatim>\<open>str\<close>.
\<close>

datatype content = Plain string | Structured "(string \<times> json) list"

definition raw_text :: "content \<Rightarrow> string" where
  "raw_text c = (case c of Plain s \<Rightarrow> s | Structured d \<Rightarrow> json_dumps (JObj d))"

definition topic_values :: "(string \<times> json) list \<Rightarrow> string \<Rightarrow> string list" where
  "topic_values d k =
     (case dict_get d k of
        Some (JStr v) \<Rightarrow>
          (let val = py_strip (py_lower v)
           in val # (if CHR ''.'' \<in> set val then [rsplit_dot val] else []))
      | _ \<Rightarrow> [])"

definition list_values :: "(string \<times> json) list \<Rightarrow> string \<Rightarrow> string list" where
  "list_values d k =
     (case dict_get d k of
        Some (JArr items) \<Rightarrow>
          concat (map (\<lambda>item. case item of JStr v \<Rightarrow> [py_strip (py_lower v)] | _ \<Rightarrow> []) items)
      | _ \<Rightarrow> [])"

definition priority_entities :: "content \<Rightarrow> string list" where
  "priority_entities c =
     (case c of
        Plain s \<Rightarrow> []
      | Structured d \<Rightarrow>
          concat (map (topic_values d) topic_fields) @ concat (map (list_values d) list_fields))"

text \<open>What is added to the set \<^verbatim>\<open>generic_entities\<close>, in the order of the additions.\<close>

definition generic_candidates :: "content \<Rightarrow> string list" where
  "generic_candidates c =
     (let raw = raw_text c; text = py_lower raw
      in map py_lower (find_hashtags text)
         @ map (\<lambda>q. py_strip (py_lower q))
             (filter (\<lambda>q. length (py_split q) \<le> 4) (find_quoted text))
         @ filter (\<lambda>x. x \<notin> set STOP_WORDS) (map py_lower (find_caps raw))
         @ filter (\<lambda>word. word \<notin> set STOP_WORDS \<and> 3 \<le> length word \<and> length word \<le> 20)
             (find_words text)
         @ filter (\<lambda>bg. list_all (\<lambda>p. p \<notin> set STOP_WORDS) (py_split bg)) (find_bigrams text))"

text \<open>
  Python iterates a set of strings in an order that depends on the hash seed of the
  process. \<open>set_iter h\<close> lists the members by the rank \<open>h\<close>; every order of the members is
  \<open>set_iter h\<close> for some \<open>h\<close>.
\<close>

definition set_iter :: "(string \<Rightarrow> nat) \<Rightarrow> string list \<Rightarrow> string list" where
  "set_iter h xs = sort_key h (remdups xs)"

text \<open>
  \<^verbatim>\<open>sorted(generic_entities, key=lambda x: (len(x.split()), len(x)))\<close>: a stable sort on the
  pair, that is a stable sort on the length followed by one on the number of words.
\<close>

definition sorted_generic :: "(string \<Rightarrow> nat) \<Rightarrow> content \<Rightarrow> string list" where
  "sorted_generic h c =
     sort_key (\<lambda>x. length (py_split x))
       (sort_key length
          (set_iter h
             (filter (\<lambda>e. 3 \<le> length e \<and> e \<notin> set STOP_WORDS) (generic_candidates c))))"

text \<open>The two final loops: append what has not been seen.\<close>

fun merge_unseen :: "string list \<Rightarrow> string list \<Rightarrow> string list" where
  "merge_unseen result [] = result"
| "merge_unseen result (e # es) =
     merge_unseen (if e \<in> set result then result else result @ [e]) es"

definition extract_entities :: "(string \<Rightarrow> nat) \<Rightarrow> content \<Rightarrow> string list" where
  "extract_entities h c =
     take 15
       (merge_unseen
          (merge_unseen [] (filter (\<lambda>e. e \<noteq> [] \<and> 3 \<le> length e) (priority_entities c)))
          (sorted_generic h c))"

text \<open>\<^verbatim>\<open>w in text\<close> for two strings.\<close>

fun contains :: "string \<Rightarrow> string \<Rightarrow> bool" where
  "contains w [] = (w = [])"
| "contains w (c # cs) = (take (length w) (c # cs) = w \<or> contains w cs)"

definition classifiers :: "(string \<times> string list) list" where
  "classifiers =
     [
      (''instruction'',
        [''always'', ''never'', ''rule'', ''instruction'', ''standing order'',
         ''must always'', ''must never'', ''guideline'', ''policy'']),
      (''decision'',
        [''decided'', ''decision'', ''chose'', ''choice'', ''picked'', ''selected'',
         ''going with'', ''will use'', ''opted'']),
      (''preference'',
        [''prefer'', ''preference'', ''favorite'', ''like best'', ''rather'',
         ''better to'', ''style'']),
      (''learning'',
        [''learned'', ''learning'', ''studied'', ''studying'', ''understood'',
         ''realized'', ''discovered'', ''insight'']),
      (''task'',
        [''todo'', ''task'', ''need to'', ''should'', ''must'', ''will do'', ''plan to'',
         ''going to'', ''next step'']),
      (''question'',
        [''question'', ''wondering'', ''curious'', ''ask about'', ''find out'',
         ''research'', ''investigate'']),
      (''note'',
        [''note'', ''noticed'', ''observed'', ''important'', ''remember that'',
         ''keep in mind'']),
      (''progress'',
        [''completed'', ''finished'', ''done'', ''progress'', ''achieved'',
         ''accomplished'', ''milestone''])]"

fun classify_text :: "(string \<times> string list) list \<Rightarrow> string \<Rightarrow> string" where
  "classify_text [] text = ''info''"
| "classify_text ((label, keywords) # rest) text =
     (if list_ex (\<lambda>w. contains w text) keywords then label else classify_text rest text)"

definition classify_memory :: "content \<Rightarrow> string" where
  "classify_memory c =
     (case c of
        Plain s \<Rightarrow> classify_text classifiers (py_lower s)
      | Structured d \<Rightarrow>
          (case dict_get d ''type'' of
             Some (JStr t) \<Rightarrow> take 20 t
           | _ \<Rightarrow> classify_text classifiers (py_lower (json_dumps (JObj d)))))"

subsection \<open>The memory record and the persisted state\<close>

text \<open>The dictionary \<^verbatim>\<open>memory\<close> that \<^verbatim>\<open>cmd_remember\<close> builds.\<close>

record memory =
  m_id :: string
  m_content :: string
  m_summary :: string
  m_type :: string
  m_importance :: int
  m_confidence :: real
  m_decayDays :: "int option"
  m_supersedes :: "string option"
  m_project :: "string option"
  m_tags :: "string list"
  m_entities :: "string list"
  m_created :: string
  m_updated :: string
  m_sessionId :: "string option"
  m_source :: string
  m_sourceChannel :: "string option"
  m_sourceMessageId :: "string option"

record wal_state =
  pending :: "memory list"
  lastFlush :: "string option"

record session_state =
  s_id :: "string option"
  s_startedAt :: "string option"
  s_project :: "string option"
  s_branch :: "string option"

record queue_state =
  pendingCount :: int
  consecutiveFailures :: int
  lastDrainAttempt :: "string option"
  lastSuccess :: "string option"

record stats_state =
  totalMemories :: int
  totalRecalls :: int
  totalSearches :: int
  lastMemoryAt :: "string option"

record state =
  wal :: wal_state
  session :: session_state
  queue :: queue_state
  stats :: stats_state

definition default_state :: state where
  "default_state =
     \<lparr> wal = \<lparr> pending = [], lastFlush = None \<rparr>,
       session = \<lparr> s_id = None, s_startedAt = None, s_project = None, s_branch = None \<rparr>,
       queue = \<lparr> pendingCount = 0, consecutiveFailures = 0,
                 lastDrainAttempt = None, lastSuccess = None \<rparr>,
       stats = \<lparr> totalMemories = 0, totalRecalls = 0, totalSearches = 0,
                 lastMemoryAt = None \<rparr> \<rparr>"

definition HEALTH_CHECK_TIMEOUT_MS :: nat where
  "HEALTH_CHECK_TIMEOUT_MS = 500"

definition MAX_QUEUE_FAILURES :: int where
  "MAX_QUEUE_FAILURES = 10"

subsection \<open>The world and the environment\<close>

text \<open>A document of the ChromaDB collection: its id and its text (the metadata sent with it
  is not modelled).\<close>

record chroma_doc =
  d_id :: json
  d_document :: json

text \<open>The requests that leave the process.\<close>

datatype ext_call =
    Heartbeat
  | Embed json
  | ChromaAdd json
  | ChromaQuery "string option"
  | Fulltext string string

text \<open>
  A node of label \<^verbatim>\<open>Memory\<close>. A property that is absent (\<^verbatim>\<open>null\<close> in Cypher) is
  \<open>None\<close>; setting a property to \<^verbatim>\<open>null\<close> removes it.
\<close>

record mem_node =
  n_id :: string
  n_content :: "string option"
  n_summary :: "string option"
  n_type :: "string option"
  n_importance :: "int option"
  n_project :: "string option"
  n_created :: "string option"
  n_updated :: "string option"
  n_sessionId :: "string option"
  n_source :: "string option"
  n_confidence :: "real option"
  n_decayDays :: "int option"
  n_sourceChannel :: "string option"
  n_sourceMessageId :: "string option"
  n_forgotten :: "bool option"
  n_forgottenAt :: "string option"
  n_deleteReason :: "string option"

datatype rel = MENTIONS | TAGGED | BELONGS_TO | RECORDED_IN | SUPERSEDES

text \<open>
  The graph: the \<^verbatim>\<open>Memory\<close> nodes, the names of the \<^verbatim>\<open>Entity\<close>, \<^verbatim>\<open>Tag\<close> and
  \<^verbatim>\<open>Project\<close> nodes, the ids of the \<^verbatim>\<open>Session\<close> nodes, and the relationships
  as triples of kind, source key and target key.
\<close>

record graph =
  g_memories :: "mem_node list"
  g_entities :: "string list"
  g_tags :: "string list"
  g_projects :: "string list"
  g_sessions :: "string list"
  g_edges :: "(rel \<times> string \<times> string) list"

text \<open>
  \<open>state_file\<close> is \<open>None\<close> when the state file is missing or unreadable, \<open>queue_file\<close>
  is \<open>None\<close> when the queue file does not exist. The markdown logs hold the memories
  whose blocks were appended, in order (the rendering of a block is not modelled).
\<close>

record world =
  state_file :: "state option"
  queue_file :: "string option"
  daily_log :: "memory list"
  project_logs :: "(string \<times> memory) list"
  graph_db :: graph
  chroma_db :: "chroma_doc list"
  calls :: "ext_call list"
  tick :: nat

text \<open>
  The environment. \<open>neo4j_up\<close> says that \<^verbatim>\<open>get_driver\<close> returns a driver, \<open>md_writable\<close>
  that \<^verbatim>\<open>markdown_store\<close> runs without an exception. \<open>clock\<close> (the text of
  \<^verbatim>\<open>now_iso\<close>), \<open>strftime_now\<close> (the current time in the format of \<^verbatim>\<open>cmd_maintain\<close>)
  and \<open>uuid4\<close> are read at the current tick. \<open>heartbeat\<close>, \<open>embedder\<close>, \<open>chroma_add\<close>, \<open>chroma_query\<close> and \<open>lucene\<close>
  are the answers of the services, indexed by the number of requests made so far.
  \<open>neo_datetime\<close> is Cypher's \<^verbatim>\<open>datetime(s)\<close> in seconds and \<open>neo_now\<close> its
  \<^verbatim>\<open>datetime()\<close>. \<open>hash_order\<close> ranks strings the way the process iterates a set.
\<close>

datatype query_answer =
    QueryFailed
  | QueryNoIds
  | QueryHit string "real option"

record env =
  CHROMA_URL :: bool
  CHROMA_COLLECTION :: bool
  OLLAMA_URL :: bool
  neo4j_up :: bool
  md_writable :: bool
  clock :: "nat \<Rightarrow> string"
  strftime_now :: "nat \<Rightarrow> string"
  uuid4 :: "nat \<Rightarrow> string"
  heartbeat :: "nat \<Rightarrow> bool"
  embedder :: "nat \<Rightarrow> json \<Rightarrow> bool"
  chroma_add :: "nat \<Rightarrow> json \<Rightarrow> bool"
  chroma_query :: "nat \<Rightarrow> string option \<Rightarrow> query_answer"
  lucene :: "nat \<Rightarrow> string \<Rightarrow> string \<Rightarrow> (string \<times> real) list option"
  neo_datetime :: "string \<Rightarrow> int"
  neo_now :: int
  hash_order :: "string \<Rightarrow> nat"

definition now_iso :: "env \<Rightarrow> world \<Rightarrow> string \<times> world" where
  "now_iso e w = (clock e (tick w), w\<lparr>tick := Suc (tick w)\<rparr>)"

definition load_state :: "world \<Rightarrow> state" where
  "load_state w = (case state_file w of None \<Rightarrow> default_state | Some s \<Rightarrow> s)"

definition save_state :: "state \<Rightarrow> world \<Rightarrow> world" where
  "save_state s w = w\<lparr>state_file := Some s\<rparr>"

subsection \<open>The write-ahead log\<close>

definition wal_write :: "memory \<Rightarrow> world \<Rightarrow> world" where
  "wal_write mem w =
     (let st = load_state w;
          st = st\<lparr>wal := (wal st)\<lparr>pending := pending (wal st) @ [mem]\<rparr>\<rparr>
      in save_state st w)"

definition wal_flush :: "env \<Rightarrow> string \<Rightarrow> world \<Rightarrow> world" where
  "wal_flush e memory_id w =
     (let st = load_state w;
          st = st\<lparr>wal := (wal st)\<lparr>pending := filter (\<lambda>m. m_id m \<noteq> memory_id) (pending (wal st))\<rparr>\<rparr>;
          (now, w) = now_iso e w;
          st = st\<lparr>wal := (wal st)\<lparr>lastFlush := Some now\<rparr>\<rparr>
      in save_state st w)"

definition wal_recover :: "world \<Rightarrow> memory list" where
  "wal_recover w = pending (wal (load_state w))"

subsection \<open>The ChromaDB layer and the offline queue\<close>

definition chroma_health_check :: "env \<Rightarrow> world \<Rightarrow> bool \<times> world" where
  "chroma_health_check e w =
     (if \<not> CHROMA_URL e then (False, w)
      else (heartbeat e (length (calls w)), w\<lparr>calls := calls w @ [Heartbeat]\<rparr>))"

text \<open>The result is whether \<^verbatim>\<open>ollama_embed\<close> returned a non-empty embedding.\<close>

definition ollama_embed :: "env \<Rightarrow> json \<Rightarrow> world \<Rightarrow> bool \<times> world" where
  "ollama_embed e text w =
     (if \<not> OLLAMA_URL e then (False, w)
      else (embedder e (length (calls w)) text, w\<lparr>calls := calls w @ [Embed text]\<rparr>))"

definition chroma_store :: "env \<Rightarrow> json \<Rightarrow> json \<Rightarrow> world \<Rightarrow> bool \<times> world" where
  "chroma_store e mid content w =
     (if \<not> CHROMA_URL e \<or> \<not> CHROMA_COLLECTION e then (False, w)
      else
        (let ok = chroma_add e (length (calls w)) mid;
             w = w\<lparr>calls := calls w @ [ChromaAdd mid]\<rparr>
         in if ok
            then (True, w\<lparr>chroma_db := chroma_db w @ [\<lparr>d_id = mid, d_document = content\<rparr>]\<rparr>)
            else (False, w)))"

datatype drain_status =
    Status_empty
  | Status_skipped_max_failures
  | Status_chromadb_offline
  | Status_ok

record drain_result =
  processed :: nat
  remaining :: nat
  status :: drain_status

text \<open>The non-blank lines of the queue file.\<close>

definition queue_lines :: "string \<Rightarrow> string list" where
  "queue_lines text = filter (\<lambda>l. py_strip l \<noteq> []) (split_nl (py_strip text))"

text \<open>
  The loop of \<^verbatim>\<open>drain_queue\<close> over the lines. \<open>json_loads\<close> is Python's parser, a
  parameter of the model: \<open>None\<close> is its \<^verbatim>\<open>JSONDecodeError\<close>. Subscripting a value
  that is not an object with a string, and unpacking a \<^verbatim>\<open>metadata\<close> that is not an
  object, raise \<^verbatim>\<open>TypeError\<close>, which the loop does not catch.
\<close>

datatype line_outcome = Dropped | Kept | Stored | Raised py_error

text \<open>The body of the loop for one line.\<close>

definition drain_line ::
  "env \<Rightarrow> (string \<Rightarrow> json option) \<Rightarrow> string \<Rightarrow> world \<Rightarrow> line_outcome \<times> world" where
  "drain_line e json_loads line w =
     (case json_loads line of
        None \<Rightarrow> (Dropped, w)
      | Some (JObj entry) \<Rightarrow>
          (case dict_get entry ''content'' of
             None \<Rightarrow> (Dropped, w)
           | Some content \<Rightarrow>
               (let (embedding, w) = ollama_embed e content w
                in if \<not> embedding then (Kept, w)
                   else
                     (case dict_get entry ''id'' of
                        None \<Rightarrow> (Dropped, w)
                      | Some mid \<Rightarrow>
                          (case (case dict_get entry ''metadata'' of
                                   None \<Rightarrow> Some []
                                 | Some (JObj md) \<Rightarrow> Some md
                                 | Some _ \<Rightarrow> None) of
                             None \<Rightarrow> (Raised TypeError, w)
                           | Some md \<Rightarrow>
                               (let (stored, w) =
                                      chroma_store e
                                        (case dict_get md ''id'' of None \<Rightarrow> mid | Some v \<Rightarrow> v)
                                        (case dict_get md ''content'' of
                                           None \<Rightarrow> content | Some v \<Rightarrow> v) w
                                in if stored then (Stored, w) else (Kept, w))))))
      | Some _ \<Rightarrow> (Raised TypeError, w))"

fun drain_loop ::
  "env \<Rightarrow> (string \<Rightarrow> json option) \<Rightarrow> string list \<Rightarrow> nat \<Rightarrow> string list \<Rightarrow> world
     \<Rightarrow> (py_error + nat \<times> string list) \<times> world" where
  "drain_loop e json_loads [] n remaining_lines w = (Inr (n, remaining_lines), w)"
| "drain_loop e json_loads (line # rest) n remaining_lines w =
     (case drain_line e json_loads line w of
        (Raised err, w) \<Rightarrow> (Inl err, w)
      | (Dropped, w) \<Rightarrow> drain_loop e json_loads rest n remaining_lines w
      | (Kept, w) \<Rightarrow> drain_loop e json_loads rest n (remaining_lines @ [line]) w
      | (Stored, w) \<Rightarrow> drain_loop e json_loads rest (n + 1) remaining_lines w)"

definition drain_queue ::
  "env \<Rightarrow> (string \<Rightarrow> json option) \<Rightarrow> world \<Rightarrow> (py_error + drain_result) \<times> world" where
  "drain_queue e json_loads w =
     (case queue_file w of
        None \<Rightarrow> (Inr \<lparr>processed = 0, remaining = 0, status = Status_empty\<rparr>, w)
      | Some text \<Rightarrow>
          (let lines = queue_lines text
           in if lines = []
              then (Inr \<lparr>processed = 0, remaining = 0, status = Status_empty\<rparr>, w)
              else
                (let st = load_state w
                 in if consecutiveFailures (queue st) \<ge> MAX_QUEUE_FAILURES
                    then (Inr \<lparr>processed = 0, remaining = length lines,
                                status = Status_skipped_max_failures\<rparr>, w)
                    else
                      (let (healthy, w) = chroma_health_check e w
                       in if \<not> healthy
                          then
                            (let st = st\<lparr>queue := (queue st)
                                       \<lparr>consecutiveFailures := consecutiveFailures (queue st) + 1\<rparr>\<rparr>;
                                 (now, w) = now_iso e w;
                                 st = st\<lparr>queue := (queue st)\<lparr>lastDrainAttempt := Some now\<rparr>\<rparr>
                             in (Inr \<lparr>processed = 0, remaining = length lines,
                                      status = Status_chromadb_offline\<rparr>, save_state st w))
                          else
                            (case drain_loop e json_loads lines 0 [] w of
                               (Inl err, w) \<Rightarrow> (Inl err, w)
                             | (Inr (n, remaining_lines), w) \<Rightarrow>
                                 (let w = w\<lparr>queue_file := Some
                                            (if remaining_lines \<noteq> []
                                             then join_nl remaining_lines @ [NL] else [])\<rparr>;
                                      st = st\<lparr>queue := (queue st)\<lparr>consecutiveFailures := 0\<rparr>\<rparr>;
                                      (now, w) = now_iso e w;
                                      st = st\<lparr>queue := (queue st)\<lparr>lastSuccess := Some now\<rparr>\<rparr>;
                                      (now, w) = now_iso e w;
                                      st = st\<lparr>queue := (queue st)\<lparr>lastDrainAttempt := Some now\<rparr>\<rparr>;
                                      st = st\<lparr>queue := (queue st)
                                             \<lparr>pendingCount := int (length remaining_lines)\<rparr>\<rparr>
                                  in (Inr \<lparr>processed = n, remaining = length remaining_lines,
                                           status = Status_ok\<rparr>, save_state st w)))))))"

definition cmd_drain_queue ::
  "env \<Rightarrow> (string \<Rightarrow> json option) \<Rightarrow> world \<Rightarrow> (py_error + drain_result) \<times> world" where
  "cmd_drain_queue e json_loads w = drain_queue e json_loads w"

subsection \<open>The Neo4j layer\<close>

text \<open>Python's truth value of an optional string: \<^verbatim>\<open>None\<close> and the empty string are false.\<close>

definition truthy :: "string option \<Rightarrow> bool" where
  "truthy v = (case v of None \<Rightarrow> False | Some s \<Rightarrow> s \<noteq> [])"

text \<open>
  The filter of active memories. A comparison with \<^verbatim>\<open>null\<close> is \<^verbatim>\<open>null\<close> in Cypher and a
  \<^verbatim>\<open>WHERE\<close> that is \<^verbatim>\<open>null\<close> rejects the row; a duration of \<open>d\<close> days is \<open>d * 86400\<close>
  seconds.
\<close>

definition NOT_FORGOTTEN :: "mem_node \<Rightarrow> bool" where
  "NOT_FORGOTTEN m = (\<not> (case n_forgotten m of None \<Rightarrow> False | Some b \<Rightarrow> b))"

definition NOT_EXPIRED :: "env \<Rightarrow> mem_node \<Rightarrow> bool" where
  "NOT_EXPIRED e m =
     (case n_decayDays m of
        None \<Rightarrow> True
      | Some d \<Rightarrow>
          (case n_created m of
             None \<Rightarrow> False
           | Some c \<Rightarrow> neo_datetime e c + d * 86400 > neo_now e))"

definition ACTIVE_MEMORY :: "env \<Rightarrow> mem_node \<Rightarrow> bool" where
  "ACTIVE_MEMORY e m = (NOT_FORGOTTEN m \<and> NOT_EXPIRED e m)"

text \<open>\<^verbatim>\<open>MERGE\<close> of a key into a list of keys or of relationships.\<close>

definition merge_list :: "'a \<Rightarrow> 'a list \<Rightarrow> 'a list" where
  "merge_list x xs = (if x \<in> set xs then xs else xs @ [x])"

definition new_node :: "string \<Rightarrow> mem_node" where
  "new_node i =
     \<lparr> n_id = i, n_content = None, n_summary = None, n_type = None, n_importance = None,
       n_project = None, n_created = None, n_updated = None, n_sessionId = None,
       n_source = None, n_confidence = None, n_decayDays = None, n_sourceChannel = None,
       n_sourceMessageId = None, n_forgotten = None, n_forgottenAt = None,
       n_deleteReason = None \<rparr>"

text \<open>The \<^verbatim>\<open>SET\<close> clause of the first statement of \<^verbatim>\<open>neo4j_store\<close>.\<close>

definition set_memory_props :: "memory \<Rightarrow> mem_node \<Rightarrow> mem_node" where
  "set_memory_props mem n =
     n\<lparr> n_content := Some (m_content mem),
        n_summary := Some (m_summary mem),
        n_type := Some (m_type mem),
        n_importance := Some (m_importance mem),
        n_project := m_project mem,
        n_created := Some (m_created mem),
        n_updated := Some (m_updated mem),
        n_sessionId := m_sessionId mem,
        n_source := Some (m_source mem),
        n_confidence := Some (m_confidence mem),
        n_decayDays := m_decayDays mem,
        n_sourceChannel := m_sourceChannel mem,
        n_sourceMessageId := m_sourceMessageId mem \<rparr>"

definition has_memory :: "graph \<Rightarrow> string \<Rightarrow> bool" where
  "has_memory g i = (i \<in> set (map n_id (g_memories g)))"

definition update_memory :: "string \<Rightarrow> (mem_node \<Rightarrow> mem_node) \<Rightarrow> graph \<Rightarrow> graph" where
  "update_memory i f g = g\<lparr>g_memories := map (\<lambda>n. if n_id n = i then f n else n) (g_memories g)\<rparr>"

definition merge_memory :: "memory \<Rightarrow> graph \<Rightarrow> graph" where
  "merge_memory mem g =
     update_memory (m_id mem) (set_memory_props mem)
       (if has_memory g (m_id mem) then g
        else g\<lparr>g_memories := g_memories g @ [new_node (m_id mem)]\<rparr>)"

text \<open>
  The statement for the \<^verbatim>\<open>supersedes\<close> chain: it sets \<^verbatim>\<open>forgotten\<close> and
  \<^verbatim>\<open>deleteReason\<close> on the predecessor and nothing else.
\<close>

definition supersede :: "string \<Rightarrow> string \<Rightarrow> graph \<Rightarrow> graph" where
  "supersede newId oldId g =
     (if has_memory g newId \<and> has_memory g oldId
      then update_memory oldId
             (\<lambda>old. old\<lparr> n_forgotten := Some True,
                         n_deleteReason := Some (''superseded by '' @ newId) \<rparr>)
             (g\<lparr>g_edges := merge_list (SUPERSEDES, newId, oldId) (g_edges g)\<rparr>)
      else g)"

definition link_entity :: "string \<Rightarrow> string \<Rightarrow> graph \<Rightarrow> graph" where
  "link_entity memId name g =
     (let g = g\<lparr>g_entities := merge_list name (g_entities g)\<rparr>
      in if has_memory g memId
         then g\<lparr>g_edges := merge_list (MENTIONS, memId, name) (g_edges g)\<rparr> else g)"

definition link_tag :: "string \<Rightarrow> string \<Rightarrow> graph \<Rightarrow> graph" where
  "link_tag memId name g =
     (let g = g\<lparr>g_tags := merge_list name (g_tags g)\<rparr>
      in if has_memory g memId
         then g\<lparr>g_edges := merge_list (TAGGED, memId, name) (g_edges g)\<rparr> else g)"

definition link_project :: "string \<Rightarrow> string \<Rightarrow> graph \<Rightarrow> graph" where
  "link_project memId name g =
     (let g = g\<lparr>g_projects := merge_list name (g_projects g)\<rparr>
      in if has_memory g memId
         then g\<lparr>g_edges := merge_list (BELONGS_TO, memId, name) (g_edges g)\<rparr> else g)"

definition link_session :: "string \<Rightarrow> string \<Rightarrow> graph \<Rightarrow> graph" where
  "link_session memId sid g =
     (let g = g\<lparr>g_sessions := merge_list sid (g_sessions g)\<rparr>
      in if has_memory g memId
         then g\<lparr>g_edges := merge_list (RECORDED_IN, memId, sid) (g_edges g)\<rparr> else g)"

definition neo4j_store :: "env \<Rightarrow> memory \<Rightarrow> world \<Rightarrow> bool \<times> world" where
  "neo4j_store e mem w =
     (if \<not> neo4j_up e then (False, w)
      else
        (let g = merge_memory mem (graph_db w);
             g = (if truthy (m_supersedes mem)
                  then supersede (m_id mem) (the (m_supersedes mem)) g else g);
             g = foldl (\<lambda>g name. link_entity (m_id mem) name g) g (m_entities mem);
             g = foldl (\<lambda>g name. link_tag (m_id mem) name g) g (m_tags mem);
             g = (if truthy (m_project mem)
                  then link_project (m_id mem) (the (m_project mem)) g else g);
             g = (if truthy (m_sessionId mem)
                  then link_session (m_id mem) (the (m_sessionId mem)) g else g)
         in (True, w\<lparr>graph_db := g\<rparr>)))"

definition neo4j_forget :: "env \<Rightarrow> string \<Rightarrow> world \<Rightarrow> bool \<times> world" where
  "neo4j_forget e memory_id w =
     (if \<not> neo4j_up e then (False, w)
      else
        (let (now, w) = now_iso e w
         in (True, w\<lparr>graph_db := update_memory memory_id
                       (\<lambda>m. m\<lparr> n_forgotten := Some True, n_forgottenAt := Some now,
                                n_content := None, n_summary := None \<rparr>)
                       (graph_db w)\<rparr>)))"

definition neo4j_forget_with_reason ::
  "env \<Rightarrow> string \<Rightarrow> string option \<Rightarrow> world \<Rightarrow> bool \<times> world" where
  "neo4j_forget_with_reason e memory_id reason w =
     (if \<not> neo4j_up e then (False, w)
      else
        (let (now, w) = now_iso e w
         in (True, w\<lparr>graph_db := update_memory memory_id
                       (\<lambda>m. m\<lparr> n_forgotten := Some True, n_forgottenAt := Some now,
                                n_deleteReason := reason,
                                n_content := None, n_summary := None \<rparr>)
                       (graph_db w)\<rparr>)))"

subsection \<open>Fulltext search\<close>

text \<open>
  The substitution \<^verbatim>\<open>re.sub(r'([+\-&|!(){}[\]^"~*?:\\/])', r'\\\1', s)\<close>: each reserved
  character of the query language gets a backslash in front.
\<close>

definition lucene_special :: "char \<Rightarrow> bool" where
  "lucene_special c = (c \<in> set (''+-&|!(){}[]^~*?:/'' @ [CHR 0x22, CHR 0x5C]))"

definition lucene_escape :: "string \<Rightarrow> string" where
  "lucene_escape s = concat (map (\<lambda>c. if lucene_special c then [CHR 0x5C, c] else [c]) s)"

record search_result =
  r_id :: string
  r_content :: "string option"
  r_summary :: "string option"
  r_type :: "string option"
  r_importance :: "int option"
  r_confidence :: "real option"
  r_project :: "string option"
  r_created :: "string option"
  r_score :: real
  r_source :: string

text \<open>
  One request to a fulltext index. The engine's answer is \<open>None\<close> when the call raises
  (the driver fails, or the engine rejects the query text), else the keys of the indexed
  nodes with their scores.
\<close>

definition fulltext_query ::
  "env \<Rightarrow> string \<Rightarrow> string \<Rightarrow> world \<Rightarrow> (string \<times> real) list option \<times> world" where
  "fulltext_query e index q w =
     (lucene e (length (calls w)) index q, w\<lparr>calls := calls w @ [Fulltext index q]\<rparr>)"

definition opt_matches :: "string option \<Rightarrow> string option \<Rightarrow> bool" where
  "opt_matches param prop = (case param of None \<Rightarrow> True | Some p \<Rightarrow> prop = Some p)"

definition importance_desc :: "int option \<Rightarrow> int option" where
  "importance_desc i = (case i of None \<Rightarrow> None | Some v \<Rightarrow> Some (- v))"

definition node_result :: "mem_node \<Rightarrow> real \<Rightarrow> string \<Rightarrow> search_result" where
  "node_result m sc src =
     \<lparr> r_id = n_id m, r_content = n_content m, r_summary = n_summary m, r_type = n_type m,
       r_importance = n_importance m, r_confidence = n_confidence m,
       r_project = n_project m, r_created = n_created m, r_score = sc, r_source = src \<rparr>"

text \<open>The rows of the memory index that pass the \<^verbatim>\<open>WHERE\<close> clause, with their scores.\<close>

definition memory_rows ::
  "env \<Rightarrow> graph \<Rightarrow> (string \<times> real) list \<Rightarrow> string option \<Rightarrow> string option
     \<Rightarrow> (mem_node \<times> real) list" where
  "memory_rows e g hits project mem_type =
     concat (map (\<lambda>(i, sc).
        map (\<lambda>m. (m, sc))
          (filter (\<lambda>m. n_id m = i \<and> ACTIVE_MEMORY e m \<and> opt_matches project (n_project m)
                        \<and> opt_matches mem_type (n_type m)) (g_memories g))) hits)"

text \<open>The rows of the entity index: the memories that mention a matched entity.\<close>

definition entity_rows ::
  "env \<Rightarrow> graph \<Rightarrow> (string \<times> real) list \<Rightarrow> string option \<Rightarrow> string option
     \<Rightarrow> (mem_node \<times> real) list" where
  "entity_rows e g hits project mem_type =
     remdups (concat (map (\<lambda>(name, sc).
        map (\<lambda>m. (m, sc * 0.8))
          (filter (\<lambda>m. (MENTIONS, n_id m, name) \<in> set (g_edges g) \<and> ACTIVE_MEMORY e m
                        \<and> opt_matches project (n_project m)
                        \<and> opt_matches mem_type (n_type m)) (g_memories g)))
        (filter (\<lambda>(name, sc). name \<in> set (g_entities g)) hits)))"

definition neo4j_search ::
  "env \<Rightarrow> string \<Rightarrow> nat \<Rightarrow> string option \<Rightarrow> string option \<Rightarrow> world
     \<Rightarrow> search_result list \<times> world" where
  "neo4j_search e query limit project mem_type w =
     (if \<not> neo4j_up e then ([], w)
      else
        (case fulltext_query e ''memory_fulltext'' query w of
           (None, w) \<Rightarrow> ([], w)
         | (Some hits, w) \<Rightarrow>
             (let rows = memory_rows e (graph_db w) hits project mem_type;
                  rows = sort_key (\<lambda>(m, sc). - sc)
                           (sort_key (\<lambda>(m, sc). importance_desc (n_importance m)) rows);
                  results = map (\<lambda>(m, sc). node_result m sc ''neo4j-fulltext'')
                              (take limit rows)
              in (case fulltext_query e ''entity_fulltext'' query w of
                    (None, w) \<Rightarrow> (results, w)
                  | (Some ehits, w) \<Rightarrow>
                      (let erows = entity_rows e (graph_db w) ehits project mem_type;
                           erows = take limit (sort_key (\<lambda>(m, sc). - sc) erows);
                           seen_ids = set (map r_id results)
                       in (results @
                             map (\<lambda>(m, sc). (node_result m sc ''neo4j-entity'')
                                               \<lparr>r_confidence := None\<rparr>)
                               (filter (\<lambda>(m, sc). n_id m \<notin> seen_ids) erows), w))))))"

subsection \<open>Forget, summarize, maintain\<close>

record forget_args =
  fa_id :: "string option"
  fa_query :: "string option"
  fa_reason :: "string option"

datatype forget_result =
    ForgetError string
  | Forgot string bool "string option"

definition cmd_forget :: "env \<Rightarrow> forget_args \<Rightarrow> world \<Rightarrow> forget_result \<times> world" where
  "cmd_forget e args w =
     (if \<not> truthy (fa_id args) \<and> \<not> truthy (fa_query args)
      then (ForgetError ''id or query is required'', w)
      else if \<not> truthy (fa_id args)
      then
        (let (results, w) = neo4j_search e (the (fa_query args)) 1 None None w
         in (case results of
               [] \<Rightarrow> (ForgetError ''no matching memory found'', w)
             | r # _ \<Rightarrow>
                 (let (ok, w) = neo4j_forget_with_reason e (r_id r) (fa_reason args) w
                  in (Forgot (r_id r) ok (fa_reason args), w))))
      else
        (let (ok, w) = neo4j_forget_with_reason e (the (fa_id args)) (fa_reason args) w
         in (Forgot (the (fa_id args)) ok (fa_reason args), w)))"

record summarize_args =
  sa_topic :: "string option"
  sa_project :: "string option"
  sa_limit :: "nat option"

datatype summarize_result =
    SummarizeError string
  | Summary "(string option \<times> search_result list) list" nat

text \<open>Grouping by type, the groups in the order of their first member.\<close>

fun group_by_type ::
  "search_result list \<Rightarrow> (string option \<times> search_result list) list
     \<Rightarrow> (string option \<times> search_result list) list" where
  "group_by_type [] groups = groups"
| "group_by_type (r # rs) groups =
     group_by_type rs
       (if r_type r \<in> set (map fst groups)
        then map (\<lambda>(t, ms). if t = r_type r then (t, ms @ [r]) else (t, ms)) groups
        else groups @ [(r_type r, [r])])"

definition cmd_summarize ::
  "env \<Rightarrow> summarize_args \<Rightarrow> world \<Rightarrow> summarize_result \<times> world" where
  "cmd_summarize e args w =
     (let limit = (case sa_limit args of None \<Rightarrow> 50 | Some l \<Rightarrow> l)
      in if \<not> neo4j_up e then (SummarizeError ''Neo4j unavailable'', w)
         else if truthy (sa_topic args)
         then
           (let safe_topic = lucene_escape (the (sa_topic args))
            in if py_strip safe_topic = [] then (Summary [] 0, w)
               else
                 (case fulltext_query e ''memory_fulltext'' safe_topic w of
                    (None, w) \<Rightarrow> (SummarizeError ''query failed'', w)
                  | (Some hits, w) \<Rightarrow>
                      (let rows = memory_rows e (graph_db w) hits (sa_project args) None;
                           rows = take limit (sort_key (\<lambda>(m, sc). - sc) rows);
                           mems = map (\<lambda>(m, sc). node_result m sc []) rows
                       in (Summary (group_by_type mems []) (length mems), w))))
         else
           (let rows = filter (\<lambda>m. ACTIVE_MEMORY e m
                                   \<and> opt_matches (sa_project args) (n_project m))
                         (g_memories (graph_db w));
                rows = take limit (sort_key (\<lambda>m. importance_desc (n_importance m)) rows);
                mems = map (\<lambda>m. node_result m 0 []) rows
            in (Summary (group_by_type mems []) (length mems), w)))"

record maintain_args =
  maxAgeDays :: "int option"
  minImportance :: "int option"

record maintain_result =
  pruned :: nat
  compacted :: nat

text \<open>
  The rows that the statement of \<^verbatim>\<open>cmd_maintain\<close> matches. \<^verbatim>\<open>m.created < $cutoff\<close>
  compares two strings, and \<open>cutoff\<close> is the current time.
\<close>

definition prune_matches :: "env \<Rightarrow> int \<Rightarrow> string \<Rightarrow> mem_node \<Rightarrow> bool" where
  "prune_matches e minImp cutoff m =
     ((case n_importance m of None \<Rightarrow> False | Some i \<Rightarrow> i < minImp)
      \<and> (case n_created m of None \<Rightarrow> False | Some c \<Rightarrow> c < cutoff)
      \<and> ACTIVE_MEMORY e m)"

definition cmd_maintain :: "env \<Rightarrow> maintain_args \<Rightarrow> world \<Rightarrow> maintain_result \<times> world" where
  "cmd_maintain e args w =
     (let max_age_days = (case maxAgeDays args of None \<Rightarrow> 90 | Some d \<Rightarrow> d);
          min_importance = (case minImportance args of None \<Rightarrow> 3 | Some i \<Rightarrow> i)
      in if \<not> neo4j_up e then (\<lparr>pruned = 0, compacted = 0\<rparr>, w)
         else
           (let cutoff_str = strftime_now e (tick w);
                w = w\<lparr>tick := Suc (tick w)\<rparr>;
                (now, w) = now_iso e w;
                g = graph_db w;
                hit = prune_matches e min_importance cutoff_str
            in (\<lparr>pruned = length (filter hit (g_memories g)), compacted = 0\<rparr>,
                w\<lparr>graph_db := g\<lparr>g_memories :=
                     map (\<lambda>m. if hit m
                               then m\<lparr> n_forgotten := Some True, n_forgottenAt := Some now,
                                       n_deleteReason := Some ''maintenance-pruned'',
                                       n_content := None, n_summary := None \<rparr>
                               else m) (g_memories g)\<rparr>\<rparr>)))"

subsection \<open>The markdown layer and the queue writer\<close>

text \<open>
  \<^verbatim>\<open>markdown_store\<close> appends the block of the memory to the daily file, and to the file of
  the project when there is one. Any exception inside it is caught and makes it return
  \<^verbatim>\<open>False\<close>.
\<close>

definition markdown_store :: "env \<Rightarrow> memory \<Rightarrow> world \<Rightarrow> bool \<times> world" where
  "markdown_store e mem w =
     (if \<not> md_writable e then (False, w)
      else
        (let w = w\<lparr>daily_log := daily_log w @ [mem]\<rparr>;
             w = (if truthy (m_project mem)
                  then w\<lparr>project_logs := project_logs w @ [(the (m_project mem), mem)]\<rparr>
                  else w)
         in (True, w)))"

definition queue_entry :: "memory \<Rightarrow> string \<Rightarrow> json" where
  "queue_entry mem queuedAt =
     JObj [(''id'', JStr (m_id mem)),
           (''content'', JStr (m_content mem)),
           (''metadata'',
              JObj [(''type'', JStr (m_type mem)),
                    (''importance'', JStr (str_int (m_importance mem))),
                    (''project'', (case m_project mem of None \<Rightarrow> JNull | Some p \<Rightarrow> JStr p)),
                    (''created'', JStr (m_created mem)),
                    (''summary'', JStr (m_summary mem))]),
           (''queuedAt'', JStr queuedAt)]"

definition queue_for_embedding :: "env \<Rightarrow> memory \<Rightarrow> world \<Rightarrow> world" where
  "queue_for_embedding e mem w =
     (let (now, w) = now_iso e w
      in w\<lparr>queue_file := Some ((case queue_file w of None \<Rightarrow> [] | Some text \<Rightarrow> text)
                                @ json_dumps (queue_entry mem now) @ [NL])\<rparr>)"

subsection \<open>Duplicate detection\<close>

datatype dup_action = Skip | Replace | Allow

record dup =
  action :: dup_action
  existingId :: "string option"
  similarity :: "real option"

definition allow :: dup where
  "allow = \<lparr>action = Allow, existingId = None, similarity = None\<rparr>"

text \<open>
  The fallback of \<^verbatim>\<open>check_duplicates\<close>: the fulltext index of the graph, queried with the
  escaped first 200 characters of the content.
\<close>

definition check_duplicates_neo4j ::
  "env \<Rightarrow> string \<Rightarrow> string \<Rightarrow> world \<Rightarrow> dup \<times> world" where
  "check_duplicates_neo4j e content mem_type w =
     (if \<not> neo4j_up e then (allow, w)
      else
        (let safe_query = lucene_escape (take 200 content)
         in if py_strip safe_query = [] then (allow, w)
            else
              (case fulltext_query e ''memory_fulltext'' safe_query w of
                 (None, w) \<Rightarrow> (allow, w)
               | (Some hits, w) \<Rightarrow>
                   (case sort_key (\<lambda>(m, sc). - sc)
                           (memory_rows e (graph_db w) hits None (Some mem_type)) of
                      [] \<Rightarrow> (allow, w)
                    | (m, score) # _ \<Rightarrow>
                        (if score > 8.0
                         then (\<lparr>action = Skip, existingId = Some (n_id m),
                                similarity = Some (min (score / 10) 1.0)\<rparr>, w)
                         else if score > 4.0
                         then (\<lparr>action = Replace, existingId = Some (n_id m),
                                similarity = Some (score / 10)\<rparr>, w)
                         else (allow, w))))))"

text \<open>
  \<^verbatim>\<open>check_duplicates\<close>. The vector store is asked first when it and the embedder are
  configured; a distance of \<open>-1\<close> makes the division raise, which the function does not
  catch.
\<close>

definition check_duplicates ::
  "env \<Rightarrow> string \<Rightarrow> string \<Rightarrow> string option \<Rightarrow> world \<Rightarrow> (py_error + dup) \<times> world" where
  "check_duplicates e content mem_type project w =
     (if CHROMA_URL e \<and> CHROMA_COLLECTION e \<and> OLLAMA_URL e
      then
        (let (embedding, w) = ollama_embed e (JStr content) w
         in if embedding
            then
              (let where_filter = (if mem_type \<noteq> [] then Some mem_type else None);
                   answer = chroma_query e (length (calls w)) where_filter;
                   w = w\<lparr>calls := calls w @ [ChromaQuery where_filter]\<rparr>
               in (case answer of
                     QueryHit existing_id d \<Rightarrow>
                       (let distance = (case d of None \<Rightarrow> 999 | Some x \<Rightarrow> x)
                        in if 1 + distance = 0 then (Inl ZeroDivisionError, w)
                           else
                             (let sim = 1 / (1 + distance)
                              in if sim > 0.92
                                 then (Inr \<lparr>action = Skip, existingId = Some existing_id,
                                            similarity = Some sim\<rparr>, w)
                                 else if sim > 0.5
                                 then (Inr \<lparr>action = Replace, existingId = Some existing_id,
                                            similarity = Some sim\<rparr>, w)
                                 else (case check_duplicates_neo4j e content mem_type w of
                                         (d, w) \<Rightarrow> (Inr d, w))))
                   | _ \<Rightarrow> (case check_duplicates_neo4j e content mem_type w of
                             (d, w) \<Rightarrow> (Inr d, w))))
            else (case check_duplicates_neo4j e content mem_type w of (d, w) \<Rightarrow> (Inr d, w)))
      else (case check_duplicates_neo4j e content mem_type w of (d, w) \<Rightarrow> (Inr d, w)))"

subsection \<open>The command remember\<close>

text \<open>
  The arguments of \<^verbatim>\<open>remember\<close>; \<open>None\<close> is a key that is not given. The content is a
  string: with any other content the default of the summary, \<^verbatim>\<open>content[:200]\<close>, is not
  what the pipeline expects.
\<close>

record remember_args =
  ra_content :: string
  ra_type :: "string option"
  ra_importance :: "int option"
  ra_project :: "string option"
  ra_tags :: "string list option"
  ra_summary :: "string option"
  ra_entities :: "string list option"
  ra_confidence :: "real option"
  ra_decayDays :: "int option"
  ra_supersedes :: "string option"
  ra_source :: "string option"
  ra_sourceChannel :: "string option"
  ra_sourceMessageId :: "string option"

record layers =
  l_markdown :: bool
  l_neo4j :: bool
  l_chromadb :: bool
  l_queued :: bool

record remember_outcome =
  o_id :: string
  o_type :: string
  o_importance :: int
  o_confidence :: real
  o_decayDays :: "int option"
  o_supersedes :: "string option"
  o_entities :: "string list"
  o_layers :: layers

datatype remember_result =
    RememberError string
  | Skipped "string option" "real option"
  | Remembered remember_outcome

text \<open>The memory that \<^verbatim>\<open>cmd_remember\<close> builds before it looks for duplicates.\<close>

definition build_memory :: "env \<Rightarrow> remember_args \<Rightarrow> world \<Rightarrow> memory \<times> world" where
  "build_memory e args w =
     (let content = ra_content args;
          memory_type = (if truthy (ra_type args) then the (ra_type args)
                         else classify_memory (Plain content));
          importance = (case ra_importance args of None \<Rightarrow> 5 | Some i \<Rightarrow> i);
          tags = (case ra_tags args of None \<Rightarrow> [] | Some ts \<Rightarrow> ts);
          summary = (case ra_summary args of None \<Rightarrow> take 200 content | Some s \<Rightarrow> s);
          entities = (case ra_entities args of
                        None \<Rightarrow> extract_entities (hash_order e) (Plain content)
                      | Some es \<Rightarrow> if es = []
                                  then extract_entities (hash_order e) (Plain content) else es);
          session_id = s_id (session (load_state w));
          confidence = (case ra_confidence args of None \<Rightarrow> 0.8 | Some c \<Rightarrow> c);
          mid = uuid4 e (tick w);
          w = w\<lparr>tick := Suc (tick w)\<rparr>;
          (created, w) = now_iso e w;
          (updated, w) = now_iso e w
      in (\<lparr> m_id = mid, m_content = content, m_summary = summary, m_type = memory_type,
            m_importance = importance, m_confidence = confidence,
            m_decayDays = ra_decayDays args, m_supersedes = ra_supersedes args,
            m_project = ra_project args, m_tags = tags, m_entities = entities,
            m_created = created, m_updated = updated, m_sessionId = session_id,
            m_source = (case ra_source args of None \<Rightarrow> ''agent'' | Some s \<Rightarrow> s),
            m_sourceChannel = ra_sourceChannel args,
            m_sourceMessageId = ra_sourceMessageId args \<rparr>, w))"

text \<open>Layer 3: the vector store, or the queue.\<close>

definition remember_chroma :: "env \<Rightarrow> memory \<Rightarrow> world \<Rightarrow> (bool \<times> bool) \<times> world" where
  "remember_chroma e mem w =
     (if CHROMA_URL e \<and> OLLAMA_URL e
      then
        (let (embedding, w) = ollama_embed e (JStr (m_content mem)) w;
             (chroma_ok, w) = (if embedding
                               then chroma_store e (JStr (m_id mem)) (JStr (m_content mem)) w
                               else (False, w))
         in if \<not> chroma_ok then ((chroma_ok, True), queue_for_embedding e mem w)
            else ((chroma_ok, False), w))
      else if CHROMA_URL e then ((False, True), queue_for_embedding e mem w)
      else ((False, False), w))"

text \<open>The part of \<^verbatim>\<open>cmd_remember\<close> after the duplicate check.\<close>

definition remember_write ::
  "env \<Rightarrow> remember_args \<Rightarrow> memory \<Rightarrow> world \<Rightarrow> remember_outcome \<times> world" where
  "remember_write e args mem w =
     (let w = wal_write mem w;
          (md_ok, w) = markdown_store e mem w;
          (neo_ok, w) = neo4j_store e mem w;
          ((chroma_ok, queued), w) = remember_chroma e mem w;
          w = (if md_ok \<or> neo_ok then wal_flush e (m_id mem) w else w);
          st = load_state w;
          st = st\<lparr>stats := (stats st)\<lparr>totalMemories := totalMemories (stats st) + 1\<rparr>\<rparr>;
          (now, w) = now_iso e w;
          st = st\<lparr>stats := (stats st)\<lparr>lastMemoryAt := Some now\<rparr>\<rparr>;
          w = save_state st w
      in (\<lparr> o_id = m_id mem, o_type = m_type mem,
            o_importance = m_importance mem, o_confidence = m_confidence mem,
            o_decayDays = ra_decayDays args, o_supersedes = m_supersedes mem,
            o_entities = take 5 (m_entities mem),
            o_layers = \<lparr> l_markdown = md_ok, l_neo4j = neo_ok, l_chromadb = chroma_ok,
                         l_queued = queued \<rparr> \<rparr>, w))"

definition cmd_remember ::
  "env \<Rightarrow> remember_args \<Rightarrow> world \<Rightarrow> (py_error + remember_result) \<times> world" where
  "cmd_remember e args w =
     (if ra_content args = [] then (Inr (RememberError ''content is required''), w)
      else
        (let (mem, w) = build_memory e args w
         in (case check_duplicates e (ra_content args) (m_type mem) (ra_project args) w of
               (Inl err, w) \<Rightarrow> (Inl err, w)
             | (Inr d, w) \<Rightarrow>
                 (if action d = Skip
                  then (Inr (Skipped (existingId d) (similarity d)), w)
                  else
                    (let mem = (if action d = Replace
                                then mem\<lparr>m_supersedes := existingId d\<rparr> else mem);
                         (out, w) = remember_write e args mem w
                     in (Inr (Remembered out), w))))))"

subsection \<open>Sample environments and worlds\<close>

text \<open>
  An environment in which every service is configured and answers, and a world with no
  files and empty stores. The concrete inputs below are variations of the two.
\<close>

definition base_env :: env where
  "base_env =
     \<lparr> CHROMA_URL = True, CHROMA_COLLECTION = True, OLLAMA_URL = True,
       neo4j_up = True, md_writable = True,
       clock = (\<lambda>n. ''2026-11-03T10:00:00.00000'' @ str_nat (n mod 10) @ ''+00:00''),
       strftime_now = (\<lambda>n. ''2026-11-03T10:00:00Z''),
       uuid4 = (\<lambda>n. ''uuid-'' @ str_nat n),
       heartbeat = (\<lambda>n. True),
       embedder = (\<lambda>n t. True),
       chroma_add = (\<lambda>n i. True),
       chroma_query = (\<lambda>n t. QueryNoIds),
       lucene = (\<lambda>n i q. Some []),
       neo_datetime = (\<lambda>s. 0),
       neo_now = 0,
       hash_order = (\<lambda>s. 0) \<rparr>"

definition empty_graph :: graph where
  "empty_graph =
     \<lparr> g_memories = [], g_entities = [], g_tags = [], g_projects = [], g_sessions = [],
       g_edges = [] \<rparr>"

definition empty_world :: world where
  "empty_world =
     \<lparr> state_file = None, queue_file = None, daily_log = [], project_logs = [],
       graph_db = empty_graph, chroma_db = [], calls = [], tick = 0 \<rparr>"

text \<open>
  A parser for the concrete inputs: it inverts \<open>json_dumps\<close> on the values of a table and
  rejects every other line.
\<close>

definition loads_table :: "json list \<Rightarrow> string \<Rightarrow> json option" where
  "loads_table tbl l = map_of (map (\<lambda>j. (json_dumps j, j)) tbl) l"

text \<open>
  The second invariant of the data model on one node: a forgotten memory has no content
  and no summary, and carries \<^verbatim>\<open>forgottenAt\<close>.
\<close>

definition forgotten_erased :: "mem_node \<Rightarrow> bool" where
  "forgotten_erased m =
     (n_forgotten m \<noteq> Some True
      \<or> (n_content m = None \<and> n_summary m = None \<and> n_forgottenAt m \<noteq> None))"

text \<open>A graph with one active memory of importance 1, created the day before.\<close>

definition node_recent :: mem_node where
  "node_recent = (new_node ''m1'')
     \<lparr> n_content := Some ''recent note'', n_summary := Some ''recent note'',
       n_type := Some ''note'', n_importance := Some 1,
       n_created := Some ''2026-11-02T10:00:00.000000+00:00'' \<rparr>"

definition world_recent :: world where
  "world_recent = empty_world\<lparr>graph_db := empty_graph\<lparr>g_memories := [node_recent]\<rparr>\<rparr>"

text \<open>A graph with one active memory, and a new memory that supersedes it.\<close>

definition node_old :: mem_node where
  "node_old = (new_node ''old-1'')
     \<lparr> n_content := Some ''The API key is in vault'', n_summary := Some ''The API key'',
       n_type := Some ''info'', n_importance := Some 5,
       n_created := Some ''2026-11-02T10:00:00.000000+00:00'' \<rparr>"

definition world_old :: world where
  "world_old = empty_world\<lparr>graph_db := empty_graph\<lparr>g_memories := [node_old]\<rparr>\<rparr>"

definition mem_new :: memory where
  "mem_new =
     \<lparr> m_id = ''new-1'', m_content = ''The API key is in the vault'',
       m_summary = ''The API key'', m_type = ''info'', m_importance = 5,
       m_confidence = 0.8, m_decayDays = None, m_supersedes = Some ''old-1'',
       m_project = None, m_tags = [], m_entities = [],
       m_created = ''2026-11-03T10:00:00.000000+00:00'',
       m_updated = ''2026-11-03T10:00:00.000000+00:00'', m_sessionId = None,
       m_source = ''agent'', m_sourceChannel = None, m_sourceMessageId = None \<rparr>"

text \<open>The files and stores of a world: everything but the request log and the tick.\<close>

definition stores ::
  "world \<Rightarrow> state option \<times> string option \<times> memory list \<times> (string \<times> memory) list
     \<times> graph \<times> chroma_doc list" where
  "stores w =
     (state_file w, queue_file w, daily_log w, project_logs w, graph_db w, chroma_db w)"

text \<open>
  A vector store that answers the duplicate query with a neighbour at distance 0.05; an
  environment in which no layer can be written; a request to remember a note.
\<close>

definition env_dup :: env where
  "env_dup = base_env\<lparr>chroma_query := (\<lambda>n t. QueryHit ''old-1'' (Some 0.05))\<rparr>"

definition env_down :: env where
  "env_down =
     base_env\<lparr>CHROMA_URL := False, CHROMA_COLLECTION := False, OLLAMA_URL := False,
               neo4j_up := False, md_writable := False\<rparr>"

definition args_note :: remember_args where
  "args_note =
     \<lparr> ra_content = ''remember the milk'', ra_type = Some ''note'', ra_importance = None,
       ra_project = None, ra_tags = None, ra_summary = None, ra_entities = Some [''milk''],
       ra_confidence = None, ra_decayDays = None, ra_supersedes = None, ra_source = None,
       ra_sourceChannel = None, ra_sourceMessageId = None \<rparr>"

definition mem_note :: memory where
  "mem_note =
     \<lparr> m_id = uuid4 base_env 0, m_content = ''remember the milk'',
       m_summary = ''remember the milk'', m_type = ''note'', m_importance = 5,
       m_confidence = 0.8, m_decayDays = None, m_supersedes = None,
       m_project = None, m_tags = [], m_entities = [''milk''],
       m_created = clock base_env 1, m_updated = clock base_env 2, m_sessionId = None,
       m_source = ''agent'', m_sourceChannel = None, m_sourceMessageId = None \<rparr>"

text \<open>A string that \<^verbatim>\<open>str.lower\<close> leaves as it is.\<close>

definition lowered :: "string \<Rightarrow> bool" where
  "lowered s = list_all (\<lambda>c. py_lower_char c = c) s"

text \<open>A structured input whose topic is a stop word.\<close>

definition content_topic_the :: content where
  "content_topic_the = Structured [(''topic'', JStr ''the'')]"

text \<open>
  The outcomes of the lines of a drain, in file order, up to the first line that raises;
  and the lines of a file whose outcome is \<open>Kept\<close>.
\<close>

fun drain_outcomes ::
  "env \<Rightarrow> (string \<Rightarrow> json option) \<Rightarrow> string list \<Rightarrow> world \<Rightarrow> line_outcome list" where
  "drain_outcomes e json_loads [] w = []"
| "drain_outcomes e json_loads (line # rest) w =
     (case drain_line e json_loads line w of
        (Raised err, w) \<Rightarrow> [Raised err]
      | (oc, w) \<Rightarrow> oc # drain_outcomes e json_loads rest w)"

definition kept_lines :: "string list \<Rightarrow> line_outcome list \<Rightarrow> string list" where
  "kept_lines lines ocs = map fst (filter (\<lambda>(line, oc). oc = Kept) (zip lines ocs))"

text \<open>
  A queue file with the single line \<^verbatim>\<open>42\<close>, alone and with a state that has reached
  the failure limit; an environment whose vector store does not answer the health check.
\<close>

definition world_backoff :: world where
  "world_backoff =
     empty_world
       \<lparr> queue_file := Some ''42'',
         state_file := Some (default_state
           \<lparr>queue := (queue default_state)\<lparr>consecutiveFailures := 10\<rparr>\<rparr>) \<rparr>"

definition env_offline :: env where
  "env_offline = base_env\<lparr>heartbeat := (\<lambda>n. False)\<rparr>"

definition world_queued :: world where
  "world_queued = empty_world\<lparr>queue_file := Some ''42''\<rparr>"

text \<open>
  The priority entities by origin: the lowercased, stripped string values of the topic
  fields; the part before the last dot of each such value that has a dot; the lowercased,
  stripped string items of the list fields.
\<close>

definition topic_value :: "(string \<times> json) list \<Rightarrow> string \<Rightarrow> string list" where
  "topic_value d k =
     (case dict_get d k of Some (JStr v) \<Rightarrow> [py_strip (py_lower v)] | _ \<Rightarrow> [])"

definition topic_value_entities :: "content \<Rightarrow> string list" where
  "topic_value_entities c =
     (case c of
        Plain s \<Rightarrow> []
      | Structured d \<Rightarrow> concat (map (topic_value d) topic_fields))"

definition topic_prefix_entities :: "content \<Rightarrow> string list" where
  "topic_prefix_entities c =
     map rsplit_dot (filter (\<lambda>val. CHR ''.'' \<in> set val) (topic_value_entities c))"

definition list_item_entities :: "content \<Rightarrow> string list" where
  "list_item_entities c =
     (case c of
        Plain s \<Rightarrow> []
      | Structured d \<Rightarrow> concat (map (list_values d) list_fields))"

text \<open>A structured input whose topic has a stop word before its dot.\<close>

definition content_topic_dotted :: content where
  "content_topic_dotted = Structured [(''topic'', JStr ''the.cat'')]"

section \<open>Verified properties\<close>

subsection \<open>Evaluation lemmas for the concrete inputs\<close>

lemma queue_lines_42: "queue_lines ''42'' = [''42'']"
  by (simp add: queue_lines_def py_strip_def py_isspace_def NL_def)

lemma json_dumps_42: "json_dumps (JInt 42) = ''42''"
  by code_simp

lemma loads_table_42: "loads_table [JInt 42] ''42'' = Some (JInt 42)"
  by (simp add: loads_table_def json_dumps_42 del: json_dumps.simps)

subsection \<open>The write-ahead log\<close>

text \<open>
  Claim C10. For every persisted state and memory id, \<^verbatim>\<open>wal_flush\<close> leaves in the pending
  list exactly the entries whose id differs from the given one, in their order, sets
  \<^verbatim>\<open>wal.lastFlush\<close> to the clock reading, and leaves the session, queue and stats parts
  of the state, and every other file and store, as they were.
\<close>

theorem wal_flush_frame:
  "let st = load_state w; w' = wal_flush e memory_id w; st' = load_state w'
   in pending (wal st') = filter (\<lambda>m. m_id m \<noteq> memory_id) (pending (wal st))
    \<and> lastFlush (wal st') = Some (clock e (tick w))
    \<and> session st' = session st \<and> queue st' = queue st \<and> stats st' = stats st
    \<and> w' = w\<lparr>state_file := Some st', tick := Suc (tick w)\<rparr>"
  by (simp add: wal_flush_def load_state_def save_state_def now_iso_def Let_def
      split: option.splits)

subsection \<open>Draining the queue\<close>

text \<open>
  Claim C8. When the queue file has a non-blank line and \<^verbatim>\<open>queue.consecutiveFailures\<close> is
  at least 10, \<^verbatim>\<open>drain_queue\<close> returns processed 0, remaining the number of queued lines
  and status \<^verbatim>\<open>skipped-max-failures\<close>, and the world is the one it started from: no
  request was logged, so there was no health check, no embedding call and no vector write.
\<close>

theorem drain_backoff_gate:
  assumes "queue_file w = Some text" and "queue_lines text \<noteq> []"
    and "consecutiveFailures (queue (load_state w)) \<ge> 10"
  shows "drain_queue e json_loads w =
     (Inr \<lparr>processed = 0, remaining = length (queue_lines text),
           status = Status_skipped_max_failures\<rparr>, w)"
  using assms by (simp add: drain_queue_def MAX_QUEUE_FAILURES_def Let_def)

theorem drain_backoff_gate_witness:
  "queue_file world_backoff = Some ''42'' \<and> queue_lines ''42'' = [''42'']
   \<and> consecutiveFailures (queue (load_state world_backoff)) = 10
   \<and> drain_queue base_env (loads_table [JInt 42]) world_backoff =
       (Inr \<lparr>processed = 0, remaining = 1, status = Status_skipped_max_failures\<rparr>,
        world_backoff)"
  using drain_backoff_gate [of world_backoff "''42''" base_env "loads_table [JInt 42]"]
  by (simp add: world_backoff_def empty_world_def load_state_def default_state_def
      queue_lines_42)

text \<open>
  Claim C7. When the queue file has a non-blank line, \<^verbatim>\<open>queue.consecutiveFailures\<close> is below
  10 and the health check of the vector store fails, \<^verbatim>\<open>drain_queue\<close> returns processed 0,
  remaining the number of queued lines and the offline status (the literal
  \<^verbatim>\<open>chromadb-offline\<close> in the script), and the saved state has
  \<^verbatim>\<open>consecutiveFailures\<close> one higher and \<^verbatim>\<open>lastDrainAttempt\<close> set to the clock reading;
  the rest of the state and the queue file are untouched.
\<close>

theorem drain_offline:
  assumes "queue_file w = Some text" and "queue_lines text \<noteq> []"
    and "consecutiveFailures (queue (load_state w)) < 10"
    and "\<not> fst (chroma_health_check e w)"
  shows "case drain_queue e json_loads w of (r, w') \<Rightarrow>
           r = Inr \<lparr>processed = 0, remaining = length (queue_lines text),
                    status = Status_chromadb_offline\<rparr>
         \<and> consecutiveFailures (queue (load_state w'))
             = consecutiveFailures (queue (load_state w)) + 1
         \<and> lastDrainAttempt (queue (load_state w')) = Some (clock e (tick w))
         \<and> pendingCount (queue (load_state w')) = pendingCount (queue (load_state w))
         \<and> lastSuccess (queue (load_state w')) = lastSuccess (queue (load_state w))
         \<and> wal (load_state w') = wal (load_state w)
         \<and> session (load_state w') = session (load_state w)
         \<and> stats (load_state w') = stats (load_state w)
         \<and> queue_file w' = queue_file w \<and> chroma_db w' = chroma_db w"
  using assms
  by (auto simp add: drain_queue_def MAX_QUEUE_FAILURES_def Let_def now_iso_def save_state_def
      load_state_def chroma_health_check_def split: prod.splits option.splits if_splits)

theorem drain_offline_witness:
  "queue_file world_queued = Some ''42'' \<and> queue_lines ''42'' = [''42'']
   \<and> consecutiveFailures (queue (load_state world_queued)) = 0
   \<and> \<not> fst (chroma_health_check env_offline world_queued)
   \<and> fst (drain_queue env_offline (loads_table [JInt 42]) world_queued) =
       Inr \<lparr>processed = 0, remaining = 1, status = Status_chromadb_offline\<rparr>
   \<and> consecutiveFailures
       (queue (load_state (snd (drain_queue env_offline (loads_table [JInt 42]) world_queued)))) = 1"
  using drain_offline [of world_queued "''42''" env_offline "loads_table [JInt 42]"]
  by (simp add: world_queued_def empty_world_def load_state_def default_state_def
      queue_lines_42 env_offline_def base_env_def chroma_health_check_def
      split: prod.splits)

text \<open>
  A drain that completes keeps exactly the lines whose outcome is \<open>Kept\<close>, in file
  order, and counts the stored ones.
\<close>

lemma drain_loop_outcomes:
  assumes "fst (drain_loop e json_loads lines n remaining_lines w) = Inr (n', remaining_lines')"
  shows "remaining_lines' =
           remaining_lines @ kept_lines lines (drain_outcomes e json_loads lines w)
         \<and> n' = n + length (filter (\<lambda>oc. oc = Stored) (drain_outcomes e json_loads lines w))
         \<and> length (drain_outcomes e json_loads lines w) = length lines"
  using assms
proof (induction lines arbitrary: n remaining_lines w)
  case Nil
  then show ?case by (simp add: kept_lines_def)
next
  case (Cons line rest)
  obtain oc w1 where step: "drain_line e json_loads line w = (oc, w1)"
    by (cases "drain_line e json_loads line w")
  show ?case
  proof (cases oc)
    case Dropped
    with step Cons.prems
    have "fst (drain_loop e json_loads rest n remaining_lines w1) = Inr (n', remaining_lines')"
      by simp
    from Cons.IH [OF this] step Dropped show ?thesis
      by (simp add: kept_lines_def)
  next
    case Kept
    with step Cons.prems
    have "fst (drain_loop e json_loads rest n (remaining_lines @ [line]) w1)
            = Inr (n', remaining_lines')"
      by simp
    from Cons.IH [OF this] step Kept show ?thesis
      by (simp add: kept_lines_def)
  next
    case Stored
    with step Cons.prems
    have "fst (drain_loop e json_loads rest (n + 1) remaining_lines w1)
            = Inr (n', remaining_lines')"
      by simp
    from Cons.IH [OF this] step Stored show ?thesis
      by (simp add: kept_lines_def)
  next
    case (Raised err)
    with step Cons.prems show ?thesis by simp
  qed
qed

text \<open>
  When a line is kept and when it is dropped. A record without an id is kept while the
  embedder returns nothing, and dropped once it returns an embedding.
\<close>

lemma drain_line_null_embedding:
  assumes "json_loads line = Some (JObj entry)" and "dict_get entry ''content'' = Some c"
    and "\<not> fst (ollama_embed e c w)"
  shows "fst (drain_line e json_loads line w) = Kept"
  using assms by (simp add: drain_line_def case_prod_unfold Let_def)

lemma drain_line_store_failed:
  assumes "json_loads line = Some (JObj entry)" and "dict_get entry ''content'' = Some c"
    and "fst (ollama_embed e c w)" and "dict_get entry ''id'' = Some i"
    and "dict_get entry ''metadata'' = Some (JObj md)"
    and "dict_get md ''id'' = None" and "dict_get md ''content'' = None"
    and "\<not> fst (chroma_store e i c (snd (ollama_embed e c w)))"
  shows "fst (drain_line e json_loads line w) = Kept"
  using assms by (simp add: drain_line_def case_prod_unfold Let_def)

lemma drain_line_not_json:
  assumes "json_loads line = None"
  shows "drain_line e json_loads line w = (Dropped, w)"
  using assms by (simp add: drain_line_def)

lemma drain_line_no_content:
  assumes "json_loads line = Some (JObj entry)" and "dict_get entry ''content'' = None"
  shows "drain_line e json_loads line w = (Dropped, w)"
  using assms by (simp add: drain_line_def)

lemma drain_line_no_id_null_embedding:
  assumes "json_loads line = Some (JObj entry)" and "dict_get entry ''content'' = Some c"
    and "dict_get entry ''id'' = None" and "\<not> fst (ollama_embed e c w)"
  shows "fst (drain_line e json_loads line w) = Kept"
  using assms by (simp add: drain_line_def case_prod_unfold Let_def)

text \<open>
  After a healthy drain whose loop completes, the log holds the kept lines and the queue
  part of the state is stamped.
\<close>

lemma drain_queue_ok:
  assumes "queue_file w = Some text" and "queue_lines text \<noteq> []"
    and "consecutiveFailures (queue (load_state w)) < 10"
    and "chroma_health_check e w = (True, w1)"
    and "drain_loop e json_loads (queue_lines text) 0 [] w1 = (Inr (n, remaining_lines), w2)"
  shows "case drain_queue e json_loads w of (r, w') \<Rightarrow>
           r = Inr \<lparr>processed = n, remaining = length remaining_lines, status = Status_ok\<rparr>
         \<and> remaining_lines = kept_lines (queue_lines text)
                                (drain_outcomes e json_loads (queue_lines text) w1)
         \<and> queue_file w' = Some (if remaining_lines \<noteq> [] then join_nl remaining_lines @ [NL]
                                  else [])
         \<and> consecutiveFailures (queue (load_state w')) = 0
         \<and> lastSuccess (queue (load_state w')) = Some (clock e (tick w2))
         \<and> lastDrainAttempt (queue (load_state w')) = Some (clock e (Suc (tick w2)))
         \<and> pendingCount (queue (load_state w')) = int (length remaining_lines)
         \<and> wal (load_state w') = wal (load_state w)
         \<and> session (load_state w') = session (load_state w)
         \<and> stats (load_state w') = stats (load_state w)"
proof -
  have k: "remaining_lines = kept_lines (queue_lines text)
                                (drain_outcomes e json_loads (queue_lines text) w1)"
    using drain_loop_outcomes [of e json_loads "queue_lines text" 0 "[]" w1 n remaining_lines]
      assms(5) by simp
  show ?thesis
    using assms k
    by (simp add: drain_queue_def MAX_QUEUE_FAILURES_def Let_def now_iso_def save_state_def
        load_state_def)
qed

text \<open>
  Claim C6. A queue line that is valid JSON but not an object is a malformed record, and
  the claim has it dropped. The loop catches \<^verbatim>\<open>JSONDecodeError\<close> and \<^verbatim>\<open>KeyError\<close> only:
  on the line \<^verbatim>\<open>42\<close> the subscript \<^verbatim>\<open>entry["content"]\<close> raises \<^verbatim>\<open>TypeError\<close>, which
  leaves \<^verbatim>\<open>drain_queue\<close> after the health check, with the queue file not rewritten and the
  state not saved.
\<close>

theorem drain_queue_non_object_line:
  "drain_queue base_env (loads_table [JInt 42]) world_queued =
     (Inl TypeError, world_queued\<lparr>calls := [Heartbeat]\<rparr>)"
  by (simp add: drain_queue_def world_queued_def empty_world_def load_state_def
      default_state_def queue_lines_42 base_env_def chroma_health_check_def
      MAX_QUEUE_FAILURES_def drain_line_def loads_table_42 Let_def)

subsection \<open>Maintenance\<close>

text \<open>\<^verbatim>\<open>cmd_maintain\<close> reads \<^verbatim>\<open>maxAgeDays\<close> and never uses it.\<close>

lemma cmd_maintain_ignores_maxAgeDays:
  "cmd_maintain e (args\<lparr>maxAgeDays := d\<rparr>) w = cmd_maintain e args w"
  by (simp add: cmd_maintain_def)

text \<open>
  Claim C2. The claim has \<^verbatim>\<open>maintain\<close> prune the active memories of low importance
  created before now minus \<^verbatim>\<open>maxAgeDays\<close>, and leave those created within the last
  \<^verbatim>\<open>maxAgeDays\<close> days. The script sets the cutoff to the current time: with
  \<^verbatim>\<open>maxAgeDays = 90\<close> and \<^verbatim>\<open>minImportance = 3\<close>, a memory of importance 1 created one
  day ago is soft-deleted.
\<close>

theorem cmd_maintain_prunes_recent:
  "cmd_maintain base_env \<lparr>maxAgeDays = Some 90, minImportance = Some 3\<rparr> world_recent =
     (\<lparr>pruned = 1, compacted = 0\<rparr>,
      world_recent
        \<lparr> tick := 2,
          graph_db := empty_graph\<lparr>g_memories :=
            [node_recent\<lparr> n_forgotten := Some True,
                          n_forgottenAt := Some (clock base_env 1),
                          n_deleteReason := Some ''maintenance-pruned'',
                          n_content := None, n_summary := None \<rparr>]\<rparr> \<rparr>)"
  by (simp add: cmd_maintain_def world_recent_def node_recent_def empty_world_def
      empty_graph_def base_env_def new_node_def prune_matches_def ACTIVE_MEMORY_def
      NOT_FORGOTTEN_def NOT_EXPIRED_def now_iso_def Let_def)

subsection \<open>Soft deletion\<close>

text \<open>
  The explicit forget and the maintenance pruning erase what they mark: they keep the
  invariant on every node.
\<close>

lemma forgotten_erased_forget_with_reason:
  assumes "list_all forgotten_erased (g_memories (graph_db w))"
  shows "list_all forgotten_erased
           (g_memories (graph_db (snd (neo4j_forget_with_reason e i r w))))"
  using assms
  by (auto simp add: neo4j_forget_with_reason_def now_iso_def update_memory_def list_all_iff
      forgotten_erased_def Let_def)

lemma forgotten_erased_forget:
  assumes "list_all forgotten_erased (g_memories (graph_db w))"
  shows "list_all forgotten_erased (g_memories (graph_db (snd (neo4j_forget e i w))))"
  using assms
  by (auto simp add: neo4j_forget_def now_iso_def update_memory_def list_all_iff
      forgotten_erased_def Let_def)

lemma forgotten_erased_maintain:
  assumes "list_all forgotten_erased (g_memories (graph_db w))"
  shows "list_all forgotten_erased (g_memories (graph_db (snd (cmd_maintain e args w))))"
  using assms
  by (auto simp add: cmd_maintain_def now_iso_def list_all_iff forgotten_erased_def Let_def)

text \<open>
  Claim C4. The claim has every operation that sets \<^verbatim>\<open>forgotten\<close> erase the content and
  the summary and set \<^verbatim>\<open>forgottenAt\<close>. The statement of \<^verbatim>\<open>neo4j_store\<close> that marks the
  predecessor of a superseding memory sets \<^verbatim>\<open>forgotten\<close> and \<^verbatim>\<open>deleteReason\<close> only:
  after the store the predecessor is forgotten, still has its content and summary, and
  has no \<^verbatim>\<open>forgottenAt\<close>, so the invariant that held before no longer holds.
\<close>

theorem neo4j_store_supersede_keeps_content:
  "fst (neo4j_store base_env mem_new world_old)
   \<and> map (\<lambda>n. (n_id n, n_forgotten n, n_deleteReason n, n_content n, n_summary n,
                n_forgottenAt n))
       (g_memories (graph_db (snd (neo4j_store base_env mem_new world_old)))) =
     [(''old-1'', Some True, Some ''superseded by new-1'',
       Some ''The API key is in vault'', Some ''The API key'', None),
      (''new-1'', None, None, Some ''The API key is in the vault'', Some ''The API key'', None)]
   \<and> list_all forgotten_erased (g_memories (graph_db world_old))
   \<and> \<not> list_all forgotten_erased
         (g_memories (graph_db (snd (neo4j_store base_env mem_new world_old))))"
  by (simp add: neo4j_store_def base_env_def mem_new_def world_old_def node_old_def
      empty_world_def empty_graph_def new_node_def merge_memory_def has_memory_def
      update_memory_def set_memory_props_def supersede_def truthy_def merge_list_def Let_def
      forgotten_erased_def)

subsection \<open>Escaping of fulltext queries\<close>

text \<open>
  \<^verbatim>\<open>cmd_summarize\<close> escapes the topic before it queries the index, and does not query
  when the escaped topic is blank.
\<close>

lemma cmd_summarize_escapes:
  "calls (snd (cmd_summarize e args w)) = calls w
   \<or> calls (snd (cmd_summarize e args w)) =
        calls w @ [Fulltext ''memory_fulltext'' (lucene_escape (the (sa_topic args)))]"
  by (auto simp add: cmd_summarize_def fulltext_query_def Let_def
      split: prod.splits option.splits)

lemma cmd_summarize_blank_topic:
  assumes "py_strip (lucene_escape t) = []"
  shows "cmd_summarize e (args\<lparr>sa_topic := Some t\<rparr>) w =
           (if \<not> neo4j_up e then (SummarizeError ''Neo4j unavailable'', w)
            else if t = [] then cmd_summarize e (args\<lparr>sa_topic := None\<rparr>) w
            else (Summary [] 0, w))"
  using assms by (simp add: cmd_summarize_def truthy_def Let_def)

text \<open>The fallback of the duplicate check escapes the content it queries with.\<close>

lemma check_duplicates_neo4j_escapes:
  "calls (snd (check_duplicates_neo4j e c t w)) = calls w
   \<or> (py_strip (lucene_escape (take 200 c)) \<noteq> []
      \<and> calls (snd (check_duplicates_neo4j e c t w)) =
          calls w @ [Fulltext ''memory_fulltext'' (lucene_escape (take 200 c))])"
  by (auto simp add: check_duplicates_neo4j_def fulltext_query_def Let_def
      split: prod.splits option.splits list.splits)

text \<open>
  Claim C5. The claim has every fulltext search surface escape the reserved characters
  and skip the engine on a query that is blank after escaping. \<^verbatim>\<open>neo4j_search\<close>, which
  serves \<^verbatim>\<open>search\<close> and \<^verbatim>\<open>forget\<close> by query, passes the caller's text to both indexes as
  it is: the query \<^verbatim>\<open>a:b\<close> reaches the engine unescaped, and a query of two spaces
  reaches the engine too.
\<close>

theorem neo4j_search_raw:
  "calls (snd (neo4j_search base_env ''a:b'' 10 None None empty_world)) =
     [Fulltext ''memory_fulltext'' ''a:b'', Fulltext ''entity_fulltext'' ''a:b'']
   \<and> lucene_escape ''a:b'' = [CHR ''a'', CHR 0x5C, CHR '':'', CHR ''b'']
   \<and> py_strip (lucene_escape ''  '') = []
   \<and> calls (snd (neo4j_search base_env ''  '' 10 None None empty_world)) =
     [Fulltext ''memory_fulltext'' ''  '', Fulltext ''entity_fulltext'' ''  '']"
  by (simp add: neo4j_search_def fulltext_query_def base_env_def empty_world_def Let_def
      memory_rows_def entity_rows_def lucene_escape_def lucene_special_def py_strip_def
      py_isspace_def)

subsection \<open>Frames of the write pipeline\<close>

lemma state_file_markdown_store: "state_file (snd (markdown_store e m w)) = state_file w"
  by (simp add: markdown_store_def Let_def)

lemma fst_markdown_store: "fst (markdown_store e m w) = md_writable e"
  by (simp add: markdown_store_def Let_def)

lemma state_file_neo4j_store: "state_file (snd (neo4j_store e m w)) = state_file w"
  by (simp add: neo4j_store_def Let_def)

lemma fst_neo4j_store: "fst (neo4j_store e m w) = neo4j_up e"
  by (simp add: neo4j_store_def Let_def)

lemma state_file_queue_for_embedding: "state_file (queue_for_embedding e m w) = state_file w"
  by (simp add: queue_for_embedding_def now_iso_def Let_def)

lemma state_file_remember_chroma: "state_file (snd (remember_chroma e m w)) = state_file w"
  by (simp add: remember_chroma_def ollama_embed_def chroma_store_def Let_def case_prod_unfold
      state_file_queue_for_embedding)

lemma stores_calls: "stores (w\<lparr>calls := cs\<rparr>) = stores w"
  by (simp add: stores_def)

lemma stores_build_memory: "stores (snd (build_memory e args w)) = stores w"
  by (simp add: build_memory_def now_iso_def Let_def stores_def split: prod.splits)

lemma stores_check_duplicates_neo4j: "stores (snd (check_duplicates_neo4j e c t w)) = stores w"
  by (simp add: check_duplicates_neo4j_def fulltext_query_def Let_def stores_def
      split: prod.splits option.splits list.splits)

lemma stores_check_duplicates: "stores (snd (check_duplicates e c t p w)) = stores w"
  by (simp add: check_duplicates_def ollama_embed_def Let_def case_prod_unfold
      stores_check_duplicates_neo4j stores_calls split: query_answer.splits option.splits)

lemma pending_wal_write:
  "pending (wal (load_state (wal_write m w))) = pending (wal (load_state w)) @ [m]"
  by (simp add: wal_write_def load_state_def save_state_def Let_def)

lemma pending_wal_flush:
  "pending (wal (load_state (wal_flush e i w))) =
     filter (\<lambda>m. m_id m \<noteq> i) (pending (wal (load_state w)))"
  by (simp add: wal_flush_def load_state_def save_state_def now_iso_def Let_def
      split: option.splits)

text \<open>What the writes after the duplicate check leave in the pending list.\<close>

lemma remember_write_pending:
  "pending (wal (load_state (snd (remember_write e args mem w)))) =
     (if md_writable e \<or> neo4j_up e
      then filter (\<lambda>m. m_id m \<noteq> m_id mem) (pending (wal (load_state w)))
      else pending (wal (load_state w)) @ [mem])"
proof -
  define w1 where "w1 = wal_write mem w"
  define w2 where "w2 = snd (markdown_store e mem w1)"
  define w3 where "w3 = snd (neo4j_store e mem w2)"
  define w4 where "w4 = snd (remember_chroma e mem w3)"
  have s4: "load_state w4 = load_state w1"
    by (simp add: w4_def w3_def w2_def load_state_def state_file_remember_chroma
        state_file_neo4j_store state_file_markdown_store)
  define w5 where "w5 = (if md_writable e \<or> neo4j_up e then wal_flush e (m_id mem) w4 else w4)"
  have p5: "pending (wal (load_state w5)) =
     (if md_writable e \<or> neo4j_up e
      then filter (\<lambda>m. m_id m \<noteq> m_id mem) (pending (wal (load_state w)))
      else pending (wal (load_state w)) @ [mem])"
    by (simp add: w5_def pending_wal_flush s4 w1_def pending_wal_write)
  have "snd (remember_write e args mem w) =
          save_state ((load_state w5)\<lparr>stats := (stats (load_state w5))
             \<lparr>totalMemories := totalMemories (stats (load_state w5)) + 1,
              lastMemoryAt := Some (clock e (tick w5))\<rparr>\<rparr>) (w5\<lparr>tick := Suc (tick w5)\<rparr>)"
    by (simp add: remember_write_def Let_def case_prod_unfold w5_def w4_def w3_def w2_def w1_def
        fst_markdown_store fst_neo4j_store now_iso_def)
  then show ?thesis
    using p5 by (simp add: save_state_def load_state_def)
qed

lemma remember_write_outcome:
  "o_id (fst (remember_write e args mem w)) = m_id mem
   \<and> o_supersedes (fst (remember_write e args mem w)) = m_supersedes mem
   \<and> l_markdown (o_layers (fst (remember_write e args mem w))) = md_writable e
   \<and> l_neo4j (o_layers (fst (remember_write e args mem w))) = neo4j_up e"
  by (simp add: remember_write_def Let_def case_prod_unfold fst_markdown_store fst_neo4j_store)

text \<open>A similarity above 0.92 is only ever reported with the action \<^verbatim>\<open>skip\<close>.\<close>

lemma check_duplicates_neo4j_similarity:
  assumes "similarity (fst (check_duplicates_neo4j e c t w)) = Some s" and "s > 0.92"
  shows "action (fst (check_duplicates_neo4j e c t w)) = Skip
         \<and> existingId (fst (check_duplicates_neo4j e c t w)) \<noteq> None"
  using assms
  by (auto simp add: check_duplicates_neo4j_def fulltext_query_def Let_def allow_def
      split: prod.splits option.splits list.splits if_splits)

lemma check_duplicates_similarity:
  assumes "fst (check_duplicates e c t p w) = Inr d" and "similarity d = Some s" and "s > 0.92"
  shows "action d = Skip \<and> existingId d \<noteq> None"
  using assms check_duplicates_neo4j_similarity
  by (auto simp add: check_duplicates_def ollama_embed_def Let_def case_prod_unfold
      split: query_answer.splits option.splits if_splits)

lemma build_memory_note:
  "build_memory e args_note empty_world =
     (mem_note\<lparr>m_id := uuid4 e 0, m_created := clock e 1, m_updated := clock e 2\<rparr>,
      empty_world\<lparr>tick := 3\<rparr>)"
  by (simp add: build_memory_def args_note_def mem_note_def empty_world_def truthy_def
      now_iso_def load_state_def default_state_def Let_def numeral_2_eq_2 numeral_3_eq_3)

subsection \<open>The command remember\<close>

text \<open>
  Claim C1. A \<^verbatim>\<open>remember\<close> call with content, whose duplicate check neither raises nor
  says skip, returns a structured outcome whose markdown and graph flags (the keys
  \<^verbatim>\<open>markdown\<close> and \<^verbatim>\<open>neo4j\<close> of \<^verbatim>\<open>layers\<close>) say which of the two writes succeeded. The
  id of the memory is absent from \<^verbatim>\<open>wal.pending\<close> of the saved state exactly when one of
  the two flags is true; then the pending list is the old one without the entries of that
  id. When both writes failed the pending list is the old one followed by the full memory
  record.
\<close>

theorem remember_wal_closure:
  assumes "ra_content args \<noteq> []"
    and "build_memory e args w = (mem0, w0)"
    and "check_duplicates e (ra_content args) (m_type mem0) (ra_project args) w0 = (Inr d, w1)"
    and "action d \<noteq> Skip"
  shows "\<exists>out w'. cmd_remember e args w = (Inr (Remembered out), w')
         \<and> o_id out = m_id mem0
         \<and> o_supersedes out = (if action d = Replace then existingId d else m_supersedes mem0)
         \<and> l_markdown (o_layers out) = md_writable e
         \<and> l_neo4j (o_layers out) = neo4j_up e
         \<and> ((o_id out \<notin> set (map m_id (pending (wal (load_state w')))))
              = (l_markdown (o_layers out) \<or> l_neo4j (o_layers out)))
         \<and> (if l_markdown (o_layers out) \<or> l_neo4j (o_layers out)
            then pending (wal (load_state w'))
                   = filter (\<lambda>m. m_id m \<noteq> o_id out) (pending (wal (load_state w)))
            else pending (wal (load_state w'))
                   = pending (wal (load_state w)) @ [mem0\<lparr>m_supersedes := o_supersedes out\<rparr>])"
proof -
  define mem where
    "mem = (if action d = Replace then mem0\<lparr>m_supersedes := existingId d\<rparr> else mem0)"
  define out where "out = fst (remember_write e args mem w1)"
  define w' where "w' = snd (remember_write e args mem w1)"
  have run: "cmd_remember e args w = (Inr (Remembered out), w')"
    using assms by (simp add: cmd_remember_def out_def w'_def mem_def Let_def case_prod_unfold)
  have "stores w1 = stores w"
    using stores_check_duplicates [of e "ra_content args" "m_type mem0" "ra_project args" w0]
      stores_build_memory [of e args w] assms(2,3)
    by simp
  then have st: "load_state w1 = load_state w"
    by (simp add: load_state_def stores_def)
  have oc: "o_id out = m_id mem \<and> o_supersedes out = m_supersedes mem
            \<and> l_markdown (o_layers out) = md_writable e \<and> l_neo4j (o_layers out) = neo4j_up e"
    unfolding out_def by (rule remember_write_outcome)
  have pend: "pending (wal (load_state w')) =
     (if md_writable e \<or> neo4j_up e
      then filter (\<lambda>m. m_id m \<noteq> m_id mem) (pending (wal (load_state w)))
      else pending (wal (load_state w)) @ [mem])"
    unfolding w'_def by (simp add: remember_write_pending st)
  have memeq: "mem0\<lparr>m_supersedes := o_supersedes out\<rparr> = mem"
    using oc by (simp add: mem_def)
  have ids: "m_id mem = m_id mem0
             \<and> m_supersedes mem = (if action d = Replace then existingId d else m_supersedes mem0)"
    by (simp add: mem_def)
  show ?thesis
    using run oc pend memeq ids by auto
qed

theorem remember_wal_closure_witness:
  "ra_content args_note \<noteq> []
   \<and> check_duplicates env_down (ra_content args_note) ''note'' (ra_project args_note)
       (empty_world\<lparr>tick := 3\<rparr>) = (Inr allow, empty_world\<lparr>tick := 3\<rparr>)
   \<and> action allow \<noteq> Skip
   \<and> (\<exists>out w'. cmd_remember env_down args_note empty_world = (Inr (Remembered out), w')
         \<and> \<not> l_markdown (o_layers out) \<and> \<not> l_neo4j (o_layers out)
         \<and> o_id out \<in> set (map m_id (pending (wal (load_state w'))))
         \<and> pending (wal (load_state w')) = [mem_note])"
proof -
  have b: "build_memory env_down args_note empty_world = (mem_note, empty_world\<lparr>tick := 3\<rparr>)"
    by (simp add: build_memory_note) (simp add: mem_note_def env_down_def base_env_def)
  have c: "check_duplicates env_down (ra_content args_note) (m_type mem_note)
             (ra_project args_note) (empty_world\<lparr>tick := 3\<rparr>)
           = (Inr allow, empty_world\<lparr>tick := 3\<rparr>)"
    by (simp add: check_duplicates_def check_duplicates_neo4j_def env_down_def base_env_def)
  have a: "action allow \<noteq> Skip" and n: "ra_content args_note \<noteq> []"
    by (simp_all add: allow_def args_note_def)
  have down: "\<not> md_writable env_down \<and> \<not> neo4j_up env_down"
    by (simp add: env_down_def)
  have p0: "pending (wal (load_state empty_world)) = []"
    by (simp add: load_state_def empty_world_def default_state_def)
  have t: "m_type mem_note = ''note''" by (simp add: mem_note_def)
  have sup: "(if action allow = Replace then existingId allow else m_supersedes mem_note) = None"
    by (simp add: allow_def mem_note_def)
  have idm: "mem_note\<lparr>m_supersedes := None\<rparr> = mem_note"
    by (simp add: mem_note_def)
  from remember_wal_closure [OF n b c a]
  obtain out w' where run: "cmd_remember env_down args_note empty_world = (Inr (Remembered out), w')"
    and oid: "o_id out = m_id mem_note"
    and osup: "o_supersedes out
                 = (if action allow = Replace then existingId allow else m_supersedes mem_note)"
    and md: "l_markdown (o_layers out) = md_writable env_down"
    and neo: "l_neo4j (o_layers out) = neo4j_up env_down"
    and pend: "if l_markdown (o_layers out) \<or> l_neo4j (o_layers out)
               then pending (wal (load_state w'))
                      = filter (\<lambda>m. m_id m \<noteq> o_id out) (pending (wal (load_state empty_world)))
               else pending (wal (load_state w'))
                      = pending (wal (load_state empty_world))
                          @ [mem_note\<lparr>m_supersedes := o_supersedes out\<rparr>]"
    by blast
  have p: "pending (wal (load_state w')) = [mem_note]"
    using pend md neo down p0 osup sup idm by simp
  have "cmd_remember env_down args_note empty_world = (Inr (Remembered out), w')
         \<and> \<not> l_markdown (o_layers out) \<and> \<not> l_neo4j (o_layers out)
         \<and> o_id out \<in> set (map m_id (pending (wal (load_state w'))))
         \<and> pending (wal (load_state w')) = [mem_note]"
    using run md neo down p oid by simp
  then have "\<exists>out w'. cmd_remember env_down args_note empty_world = (Inr (Remembered out), w')
         \<and> \<not> l_markdown (o_layers out) \<and> \<not> l_neo4j (o_layers out)
         \<and> o_id out \<in> set (map m_id (pending (wal (load_state w'))))
         \<and> pending (wal (load_state w')) = [mem_note]"
    by (intro exI)
  then show ?thesis
    using n c a t by simp
qed

text \<open>
  Claim C3. When the duplicate check of a \<^verbatim>\<open>remember\<close> call reports a similarity above
  0.92, the call returns the payload \<^verbatim>\<open>skipped\<close> with the existing id and that similarity,
  and the state file with its WAL, the queue file, the markdown logs, the graph and the
  vector store are what they were before the call.
\<close>

theorem remember_dedup_skip:
  assumes "ra_content args \<noteq> []"
    and "build_memory e args w = (mem0, w0)"
    and "check_duplicates e (ra_content args) (m_type mem0) (ra_project args) w0 = (Inr d, w1)"
    and "similarity d = Some s" and "s > 0.92"
  shows "cmd_remember e args w = (Inr (Skipped (existingId d) (Some s)), w1)
         \<and> existingId d \<noteq> None
         \<and> state_file w1 = state_file w \<and> queue_file w1 = queue_file w
         \<and> daily_log w1 = daily_log w \<and> project_logs w1 = project_logs w
         \<and> graph_db w1 = graph_db w \<and> chroma_db w1 = chroma_db w"
proof -
  have skip: "action d = Skip \<and> existingId d \<noteq> None"
    using check_duplicates_similarity
            [of e "ra_content args" "m_type mem0" "ra_project args" w0 d s] assms
    by simp
  have "stores w1 = stores w0"
    using stores_check_duplicates [of e "ra_content args" "m_type mem0" "ra_project args" w0]
      assms(3) by simp
  moreover have "stores w0 = stores w"
    using stores_build_memory [of e args w] assms(2) by simp
  ultimately have "stores w1 = stores w" by simp
  then show ?thesis
    using skip assms by (simp add: cmd_remember_def stores_def)
qed

theorem remember_dedup_skip_witness:
  "ra_content args_note \<noteq> []
   \<and> check_duplicates env_dup (ra_content args_note) ''note'' (ra_project args_note)
       (empty_world\<lparr>tick := 3\<rparr>)
     = (Inr \<lparr>action = Skip, existingId = Some ''old-1'', similarity = Some (20 / 21)\<rparr>,
        empty_world\<lparr>tick := 3,
          calls := [Embed (JStr ''remember the milk''), ChromaQuery (Some ''note'')]\<rparr>)
   \<and> (20 / 21 :: real) > 0.92
   \<and> cmd_remember env_dup args_note empty_world
     = (Inr (Skipped (Some ''old-1'') (Some (20 / 21))),
        empty_world\<lparr>tick := 3,
          calls := [Embed (JStr ''remember the milk''), ChromaQuery (Some ''note'')]\<rparr>)"
proof -
  have b: "build_memory env_dup args_note empty_world
           = (mem_note\<lparr>m_id := uuid4 env_dup 0, m_created := clock env_dup 1,
                        m_updated := clock env_dup 2\<rparr>, empty_world\<lparr>tick := 3\<rparr>)"
    by (rule build_memory_note)
  have c: "check_duplicates env_dup (ra_content args_note) ''note'' (ra_project args_note)
             (empty_world\<lparr>tick := 3\<rparr>)
           = (Inr \<lparr>action = Skip, existingId = Some ''old-1'', similarity = Some (20 / 21)\<rparr>,
              empty_world\<lparr>tick := 3,
                calls := [Embed (JStr ''remember the milk''), ChromaQuery (Some ''note'')]\<rparr>)"
    by (simp add: check_duplicates_def ollama_embed_def env_dup_def base_env_def args_note_def
        empty_world_def Let_def)
  have n: "ra_content args_note \<noteq> []" by (simp add: args_note_def)
  have g: "(20 / 21 :: real) > 0.92" by simp
  from remember_dedup_skip [OF n b, of _ _ "20 / 21"] c g n
  show ?thesis by (simp add: mem_note_def)
qed

subsection \<open>The entity extractor\<close>

lemma lowered_iff: "lowered s \<longleftrightarrow> py_lower s = s"
  by (induction s) (auto simp add: lowered_def py_lower_def)

lemma py_lower_char_idem: "py_lower_char (py_lower_char c) = py_lower_char c"
  by (auto simp add: py_lower_char_def Let_def)

lemma lowered_py_lower: "lowered (py_lower s)"
  by (simp add: lowered_def py_lower_def list_all_iff py_lower_char_idem)

lemma is_az_lower: "is_az c \<Longrightarrow> py_lower_char c = c"
  by (auto simp add: py_lower_char_def is_az_def Let_def)

lemma isspace_lower: "py_isspace c \<Longrightarrow> py_lower_char c = c"
  by (auto simp add: py_lower_char_def py_isspace_def Let_def)

lemma lowered_subset: "lowered s \<Longrightarrow> set t \<subseteq> set s \<Longrightarrow> lowered t"
  by (auto simp add: lowered_def list_all_iff)

lemma set_py_strip: "set (py_strip s) \<subseteq> set s"
proof -
  have "set (py_strip s) \<subseteq> set (dropWhile py_isspace s)"
    unfolding py_strip_def using set_dropWhileD [of _ py_isspace "rev (dropWhile py_isspace s)"]
    by auto
  then show ?thesis using set_dropWhileD [of _ py_isspace s] by auto
qed

lemma set_tl_subset: "set (tl ys) \<subseteq> set ys"
  by (cases ys) (simp_all add: subset_insertI)

lemma set_dropWhile_subset: "set (dropWhile P zs) \<subseteq> set zs"
  by (auto dest: set_dropWhileD)

lemma set_rsplit_dot: "set (rsplit_dot s) \<subseteq> set s"
proof -
  have "set (tl (dropWhile (\<lambda>c. c \<noteq> CHR ''.'') (rev s)))
          \<subseteq> set (dropWhile (\<lambda>c. c \<noteq> CHR ''.'') (rev s))"
    by (rule set_tl_subset)
  also have "\<dots> \<subseteq> set (rev s)"
    by (rule set_dropWhile_subset)
  finally show ?thesis by (simp add: rsplit_dot_def)
qed

lemma lowered_strip_lower: "lowered (py_strip (py_lower s))"
  using lowered_subset [OF lowered_py_lower set_py_strip] .

lemma lowered_az: "list_all is_az t \<Longrightarrow> lowered t"
  by (auto simp add: lowered_def list_all_iff is_az_lower)

lemma lowered_append: "lowered (s @ t) \<longleftrightarrow> lowered s \<and> lowered t"
  by (simp add: lowered_def)

lemma lowered_space: "all_space t \<Longrightarrow> lowered t"
  by (auto simp add: lowered_def all_space_def list_all_iff isspace_lower)

lemma lowered_find_words: "list_all lowered (find_words text)"
  by (auto simp add: find_words_def list_all_iff az3_def intro: lowered_az)

lemma lowered_bigrams_scan: "list_all lowered (bigrams_scan ts)"
  by (induction ts rule: bigrams_scan.induct)
     (auto simp add: lowered_append az3_def intro: lowered_az lowered_space)

lemma lowered_find_bigrams: "list_all lowered (find_bigrams text)"
  by (simp add: find_bigrams_def lowered_bigrams_scan)

lemma lowered_topic_values: "list_all lowered (topic_values d k)"
  by (auto simp add: topic_values_def Let_def lowered_strip_lower
      intro: lowered_subset [OF lowered_strip_lower set_rsplit_dot]
      split: option.splits json.splits)

lemma lowered_list_values: "list_all lowered (list_values d k)"
  by (auto simp add: list_values_def list_all_iff lowered_strip_lower
      split: option.splits json.splits)

lemma lowered_priority_entities: "list_all lowered (priority_entities c)"
  by (auto simp add: priority_entities_def list_all_iff split: content.splits
      dest: lowered_topic_values [unfolded list_all_iff, rule_format]
            lowered_list_values [unfolded list_all_iff, rule_format])

lemma lowered_generic_candidates: "list_all lowered (generic_candidates c)"
  using lowered_find_words lowered_find_bigrams
  by (auto simp add: generic_candidates_def Let_def list_all_iff lowered_py_lower
      lowered_strip_lower)

lemma set_sorted_generic:
  "set (sorted_generic h c) =
     {e \<in> set (generic_candidates c). 3 \<le> length e \<and> e \<notin> set STOP_WORDS}"
  by (auto simp add: sorted_generic_def set_iter_def)

lemma set_merge_unseen: "set (merge_unseen r es) = set r \<union> set es"
  by (induction es arbitrary: r) auto

lemma set_extract_entities:
  "set (extract_entities h c) \<subseteq>
     {e \<in> set (priority_entities c). 3 \<le> length e}
     \<union> {e \<in> set (generic_candidates c). 3 \<le> length e \<and> e \<notin> set STOP_WORDS}"
  using set_take_subset [of 15]
  by (auto simp add: extract_entities_def set_merge_unseen set_sorted_generic
      dest!: in_set_takeD)

text \<open>Every priority entity has one of the three origins.\<close>

lemma topic_values_split:
  "topic_values d k =
     topic_value d k @ map rsplit_dot (filter (\<lambda>val. CHR ''.'' \<in> set val) (topic_value d k))"
  by (simp add: topic_values_def topic_value_def Let_def split: option.splits json.splits)

lemma set_concat_topic_values:
  "set (concat (map (topic_values d) ks)) =
     set (concat (map (topic_value d) ks))
     \<union> set (map rsplit_dot
              (filter (\<lambda>val. CHR ''.'' \<in> set val) (concat (map (topic_value d) ks))))"
proof (induction ks)
  case Nil
  show ?case by simp
next
  case (Cons k ks)
  have "set (concat (map (topic_values d) (k # ks)))
          = set (topic_values d k) \<union> set (concat (map (topic_values d) ks))"
    by simp
  also have "\<dots> = set (topic_value d k)
                   \<union> set (map rsplit_dot (filter (\<lambda>val. CHR ''.'' \<in> set val) (topic_value d k)))
                   \<union> (set (concat (map (topic_value d) ks))
                      \<union> set (map rsplit_dot (filter (\<lambda>val. CHR ''.'' \<in> set val)
                                 (concat (map (topic_value d) ks)))))"
    using Cons.IH by (simp only: topic_values_split [of d k] set_append)
  also have "\<dots> = set (concat (map (topic_value d) (k # ks)))
                   \<union> set (map rsplit_dot (filter (\<lambda>val. CHR ''.'' \<in> set val)
                              (concat (map (topic_value d) (k # ks)))))"
    by (simp add: Un_ac image_Un)
  finally show ?case .
qed

lemma set_priority_entities:
  "set (priority_entities c) =
     set (topic_value_entities c) \<union> set (topic_prefix_entities c)
     \<union> set (list_item_entities c)"
proof (cases c)
  case (Plain s)
  then show ?thesis
    by (simp add: priority_entities_def topic_value_entities_def topic_prefix_entities_def
        list_item_entities_def)
next
  case (Structured d)
  then show ?thesis
    using set_concat_topic_values [of d topic_fields]
    by (simp add: priority_entities_def topic_value_entities_def topic_prefix_entities_def
        list_item_entities_def del: set_concat set_map)
qed

text \<open>
  The order of entities of equal rank follows the iteration order of a Python set: two
  processes with different hash seeds can return different lists for the same input.
\<close>

lemma extract_entities_hash_order:
  "extract_entities (\<lambda>s. length s) (Plain ''cat dog'') = [''cat'', ''dog'', ''cat dog'']
   \<and> extract_entities (\<lambda>s. if s = ''dog'' then 0 else 1) (Plain ''cat dog'')
       = [''dog'', ''cat'', ''cat dog'']"
  by code_simp

text \<open>
  Claim C9, as stated, fails on structured input: the priority entities are filtered by
  length alone, so the topic \<^verbatim>\<open>the\<close> is returned although it is a stop word.
\<close>

theorem extract_entities_stop_word:
  "''the'' \<in> set (extract_entities (hash_order base_env) content_topic_the)
   \<and> ''the'' \<in> set STOP_WORDS"
  by code_simp

text \<open>
  Claim C9, amended. With the iteration order of sets fixed (the rank \<open>h\<close>),
  \<^verbatim>\<open>extract_entities\<close> is a function of its input. Its output has at most 15 entries
  and every entry is lowercased. An entry is a stop word only if it is a priority entity
  of a structured input, that is the lowercased, stripped string value of a topic field,
  the part of such a value before its last dot, or a lowercased, stripped string item of a
  list field; priority entities are filtered by length alone. For an input that is not a
  mapping no entry is a stop word.
\<close>

theorem extract_entities_properties:
  "length (extract_entities h c) \<le> 15
   \<and> list_all (\<lambda>e. py_lower e = e) (extract_entities h c)
   \<and> list_all (\<lambda>e. e \<in> set (priority_entities c) \<or> e \<notin> set STOP_WORDS)
        (extract_entities h c)
   \<and> list_all (\<lambda>e. e \<in> set (topic_value_entities c) \<or> e \<in> set (topic_prefix_entities c)
                  \<or> e \<in> set (list_item_entities c) \<or> e \<notin> set STOP_WORDS)
        (extract_entities h c)
   \<and> set (priority_entities c) =
       set (topic_value_entities c) \<union> set (topic_prefix_entities c)
       \<union> set (list_item_entities c)
   \<and> list_all (\<lambda>e. e \<notin> set STOP_WORDS) (extract_entities h (Plain s))"
proof -
  have len: "length (extract_entities h c) \<le> 15"
    by (simp add: extract_entities_def)
  have low: "list_all (\<lambda>e. py_lower e = e) (extract_entities h c)"
    using set_extract_entities [of h c] lowered_priority_entities [of c]
      lowered_generic_candidates [of c]
    by (auto simp add: list_all_iff lowered_iff)
  have stop: "list_all (\<lambda>e. e \<in> set (priority_entities c) \<or> e \<notin> set STOP_WORDS)
                (extract_entities h c)"
    using set_extract_entities [of h c] by (auto simp add: list_all_iff)
  have origin: "set (priority_entities c) =
       set (topic_value_entities c) \<union> set (topic_prefix_entities c)
       \<union> set (list_item_entities c)"
    by (rule set_priority_entities)
  have stop': "list_all (\<lambda>e. e \<in> set (topic_value_entities c)
                  \<or> e \<in> set (topic_prefix_entities c)
                  \<or> e \<in> set (list_item_entities c) \<or> e \<notin> set STOP_WORDS)
                (extract_entities h c)"
    using stop origin by (auto simp add: list_all_iff)
  have plain: "list_all (\<lambda>e. e \<notin> set STOP_WORDS) (extract_entities h (Plain s))"
    using set_extract_entities [of h "Plain s"]
    by (auto simp add: list_all_iff priority_entities_def)
  show ?thesis using len low stop stop' origin plain by simp
qed

theorem extract_entities_properties_witness:
  "extract_entities (hash_order base_env) content_topic_dotted
     = [''the.cat'', ''the'', ''cat'', ''topic'']
   \<and> topic_value_entities content_topic_dotted = [''the.cat'']
   \<and> topic_prefix_entities content_topic_dotted = [''the'']
   \<and> list_item_entities content_topic_dotted = []
   \<and> ''the'' \<in> set STOP_WORDS
   \<and> ''cat'' \<notin> set STOP_WORDS \<and> ''topic'' \<notin> set STOP_WORDS
   \<and> py_lower ''the.cat'' = ''the.cat''
   \<and> extract_entities (hash_order base_env) (Plain ''cat dog'') = [''cat'', ''dog'', ''cat dog'']
   \<and> ''dog'' \<notin> set STOP_WORDS \<and> ''cat dog'' \<notin> set STOP_WORDS"
proof -
  have e1: "extract_entities (hash_order base_env) content_topic_dotted
              = [''the.cat'', ''the'', ''cat'', ''topic'']"
    by code_simp
  have e2: "extract_entities (hash_order base_env) (Plain ''cat dog'')
              = [''cat'', ''dog'', ''cat dog'']"
    by code_simp
  have o: "topic_value_entities content_topic_dotted = [''the.cat'']
           \<and> topic_prefix_entities content_topic_dotted = [''the'']
           \<and> list_item_entities content_topic_dotted = []"
    by code_simp
  have st: "''the'' \<in> set STOP_WORDS"
    by code_simp
  from extract_entities_properties [of "hash_order base_env" content_topic_dotted "''cat dog''"]
    e1 e2 o st
  show ?thesis by simp
qed

end
